theory Spec2Isabelle
  imports Complex_Main
begin

section \<open>QuantEngine: market data, instruments and the Black-Scholes engine\<close>

text \<open>
  The C++ classes are templates over a numeric type \<open>T\<close>, instantiated in the sources at
  \<open>double\<close> and \<open>float\<close>. This development instantiates \<open>T\<close> at the field of real
  numbers: comparisons, \<open>+\<close>, \<open>-\<close>, \<open>*\<close> are exact, and rounding is outside the model.
  Where the real numbers and IEEE arithmetic part ways for good (a division by zero, a
  logarithm or square root outside its domain) HOL's totalised operations are not used:
  a market-data query stops with \<open>NonFinite\<close>, and the pricing engine, whose results
  depend on how infinities and NaN propagate, computes in a type that has them.
\<close>

subsection \<open>Errors\<close>

text \<open>
  One constructor for each exception the sources throw:
  \<^item> \<open>InvalidArgument m\<close>: \<^verbatim>\<open>std::invalid_argument(m)\<close>;
  \<^item> \<open>EmptyCurve\<close>: \<^verbatim>\<open>std::runtime_error("Yield curve is empty")\<close>;
  \<^item> \<open>UninitializedSurface\<close>: \<^verbatim>\<open>std::runtime_error("Volatility surface not initialized")\<close>;
  \<^item> \<open>InsufficientData\<close>: \<^verbatim>\<open>std::runtime_error("Insufficient data for interpolation")\<close>;
  \<^item> \<open>OutOfBounds m\<close>: \<^verbatim>\<open>std::runtime_error(m)\<close> with \<open>m\<close> one of
    "Strike out of bounds", "Maturity out of bounds";
  \<^item> \<open>MissingDataPoint k t\<close>: \<^verbatim>\<open>std::runtime_error("Missing volatility point at (K=k, T=t)")\<close>;
  \<^item> \<open>EngineNotSet m\<close>: \<^verbatim>\<open>std::runtime_error(m)\<close> thrown by an instrument without engine;
  \<^item> \<open>NotImplemented\<close>: \<^verbatim>\<open>std::runtime_error("Greeks calculation not implemented for this engine")\<close>;
  \<^item> \<open>KeyNotFound\<close>: the \<^verbatim>\<open>std::out_of_range\<close> of \<^verbatim>\<open>std::map::at\<close> on an absent key,
    where the caller does not catch it;
  \<^item> \<open>NonFinite\<close>: not an exception. A market-data query divided by zero: IEEE
    arithmetic goes on with an infinity or a NaN, which the real numbers do not have,
    and the query returns a value that is not a finite number.
\<close>

datatype error =
    InvalidArgument string
  | EmptyCurve
  | UninitializedSurface
  | InsufficientData
  | OutOfBounds string
  | MissingDataPoint real real
  | EngineNotSet string
  | NotImplemented
  | KeyNotFound
  | NonFinite

text \<open>A call that may throw returns \<open>error + 'a\<close>; \<open>and_then\<close> sequences two such calls.\<close>

definition and_then :: "error + 'a \<Rightarrow> ('a \<Rightarrow> error + 'b) \<Rightarrow> error + 'b" where
  "and_then m f = (case m of Inl e \<Rightarrow> Inl e | Inr v \<Rightarrow> f v)"

text \<open>Division of \<open>T\<close>: exact when the divisor is not zero, an infinity or a NaN otherwise.\<close>

definition fdiv :: "real \<Rightarrow> real \<Rightarrow> error + real" where
  "fdiv a b = (if b = 0 then Inl NonFinite else Inr (a / b))"

subsection \<open>MarketData: the state\<close>

text \<open>
  \<^verbatim>\<open>std::map<T, T> yield_curve_\<close> is an ordered container: it is modelled as the list of its
  (time, rate) entries in iteration order, an iterator as an index into that list
  (\<open>begin\<close> is \<open>0\<close>, \<open>end\<close> is the length). \<^verbatim>\<open>std::map<std::pair<T, T>, T> vol_surface_\<close>
  is only ever searched by key, so it is a partial function. The two vectors are lists.
\<close>

record market_data =
  yield_curve :: "(real \<times> real) list"
  vol_surface :: "real \<times> real \<rightharpoonup> real"
  strikes :: "real list"
  maturities :: "real list"

definition empty_market_data :: market_data where
  "empty_market_data =
     \<lparr>yield_curve = [], vol_surface = Map.empty, strikes = [], maturities = []\<rparr>"

text \<open>\<^verbatim>\<open>m[key] = value\<close> on the ordered map: overwrite an entry, or insert one in key order.\<close>

fun map_assign :: "real \<Rightarrow> real \<Rightarrow> (real \<times> real) list \<Rightarrow> (real \<times> real) list" where
  "map_assign key val [] = [(key, val)]"
| "map_assign key val (e # es) =
     (if fst e = key then (key, val) # es
      else if key < fst e then (key, val) # e # es
      else e # map_assign key val es)"

text \<open>\<^verbatim>\<open>m.upper_bound(key)\<close>: the position of the first entry whose key is greater.\<close>

definition upper_bound :: "(real \<times> real) list \<Rightarrow> real \<Rightarrow> nat" where
  "upper_bound m key = length (takeWhile (\<lambda>e. fst e \<le> key) m)"

text \<open>
  \<^verbatim>\<open>std::lower_bound(v.begin(), v.end(), x)\<close> on a vector partitioned by \<open>< x\<close> (as a
  sorted one is): the position of the first element that is not less than \<open>x\<close>.
\<close>

definition lower_bound :: "real list \<Rightarrow> real \<Rightarrow> nat" where
  "lower_bound v x = length (takeWhile (\<lambda>y. y < x) v)"

text \<open>\<^verbatim>\<open>v.insert(it, x)\<close>: \<open>x\<close> goes in front of position \<open>it\<close>.\<close>

definition vec_insert :: "nat \<Rightarrow> real \<Rightarrow> real list \<Rightarrow> real list" where
  "vec_insert it x v = take it v @ x # drop it v"

text \<open>The insert-if-absent step that \<open>addVolatility\<close> performs on each axis vector.\<close>

definition insert_if_absent :: "real \<Rightarrow> real list \<Rightarrow> real list" where
  "insert_if_absent x v =
     (let it = lower_bound v x
      in if it = length v \<or> v ! it \<noteq> x then vec_insert it x v else v)"

subsection \<open>MarketData: the mutators\<close>

text \<open>
  A mutator returns the exception it threw, if any, and the state it leaves behind.
\<close>

definition addRiskFreeRate :: "market_data \<Rightarrow> real \<Rightarrow> real \<Rightarrow> error option \<times> market_data" where
  "addRiskFreeRate md time rate =
     (if time < 0 \<or> rate < 0 then (Some (InvalidArgument ''Invalid time/rate''), md)
      else (None, md\<lparr>yield_curve := map_assign time rate (yield_curve md)\<rparr>))"

definition addVolatility ::
  "market_data \<Rightarrow> real \<Rightarrow> real \<Rightarrow> real \<Rightarrow> error option \<times> market_data" where
  "addVolatility md strike maturity volatility =
     (if strike \<le> 0 \<or> maturity < 0 \<or> volatility < 0
      then (Some (InvalidArgument ''Invalid strike/maturity/volatility''), md)
      else
        let md1 = md\<lparr>vol_surface := (vol_surface md)((strike, maturity) \<mapsto> volatility)\<rparr>;
            md2 = md1\<lparr>strikes := insert_if_absent strike (strikes md1)\<rparr>;
            md3 = md2\<lparr>maturities := insert_if_absent maturity (maturities md2)\<rparr>
        in (None, md3))"

subsection \<open>MarketData: the queries\<close>

text \<open>
  \<open>eps\<close> is \<^verbatim>\<open>std::numeric_limits<T>::epsilon()\<close>, a constant of the numeric type and so a
  parameter here.
\<close>

definition getRiskFreeRate :: "real \<Rightarrow> market_data \<Rightarrow> real \<Rightarrow> error + real" where
  "getRiskFreeRate eps md time =
     (let c = yield_curve md in
      if c = [] then Inl EmptyCurve
      else
        let upper = upper_bound c time in
        if length c = 1 then Inr (snd (c ! 0))
        else if upper = 0 then Inr (snd (c ! upper))
        else if upper = length c then Inr (snd (c ! (upper - 1)))
        else
          let lower = upper - 1;
              t0 = fst (c ! lower); r0 = snd (c ! lower);
              t1 = fst (c ! upper); r1 = snd (c ! upper)
          in if t1 - t0 < eps then Inr r0
             else and_then (fdiv (time - t0) (t1 - t0))
                    (\<lambda>alpha. Inr (r0 + alpha * (r1 - r0))))"

text \<open>\<^verbatim>\<open>vol_surface_.at(key)\<close>, and the lambda \<open>get_vol\<close> that rethrows its exception.\<close>

definition surface_at :: "market_data \<Rightarrow> real \<times> real \<Rightarrow> error + real" where
  "surface_at md key = (case vol_surface md key of None \<Rightarrow> Inl KeyNotFound | Some v \<Rightarrow> Inr v)"

definition get_vol :: "market_data \<Rightarrow> real \<Rightarrow> real \<Rightarrow> error + real" where
  "get_vol md k t =
     (case surface_at md (k, t) of Inl e \<Rightarrow> Inl (MissingDataPoint k t) | Inr v \<Rightarrow> Inr v)"

text \<open>
  The bracketing of a coordinate on its axis vector; \<open>getVolatility\<close> has this code twice,
  for the strikes (\<open>k0\<close>, \<open>k1\<close>) and for the maturities (\<open>t0\<close>, \<open>t1\<close>). It runs on a
  vector that is not empty.
\<close>

definition bracket :: "real list \<Rightarrow> real \<Rightarrow> real \<times> real" where
  "bracket v x =
     (let lower = lower_bound v x in
      if lower = 0 then (v ! lower, v ! lower)
      else if lower = length v then (v ! (lower - 1), v ! (lower - 1))
      else (v ! (lower - 1), v ! lower))"

definition getVolatility :: "market_data \<Rightarrow> real \<Rightarrow> real \<Rightarrow> error + real" where
  "getVolatility md strike maturity =
     (case vol_surface md (strike, maturity) of
        Some v \<Rightarrow> Inr v
      | None \<Rightarrow>
        if length (strikes md) = 1 \<and> length (maturities md) = 1
        then surface_at md (strikes md ! 0, maturities md ! 0)
        else if strikes md = [] \<or> maturities md = [] then Inl UninitializedSurface
        else if length (strikes md) < 2 \<or> length (maturities md) < 2 then Inl InsufficientData
        else if strike < hd (strikes md) \<or> strike > last (strikes md)
        then Inl (OutOfBounds ''Strike out of bounds'')
        else if maturity < hd (maturities md) \<or> maturity > last (maturities md)
        then Inl (OutOfBounds ''Maturity out of bounds'')
        else
          let (k0, k1) = bracket (strikes md) strike;
              (t0, t1) = bracket (maturities md) maturity
          in if k0 = k1 \<and> t0 = t1 then surface_at md (k0, t0)
             else
               let single_strike = (k0 = k1);
                   single_maturity = (t0 = t1)
               in and_then (get_vol md k0 t0) (\<lambda>v00.
                  and_then (if single_maturity then Inr v00 else get_vol md k0 t1) (\<lambda>v01.
                  and_then (if single_strike then Inr v00 else get_vol md k1 t0) (\<lambda>v10.
                  and_then (if single_strike \<or> single_maturity then Inr v00
                            else get_vol md k1 t1) (\<lambda>v11.
                  and_then (fdiv (strike - k0) (k1 - k0)) (\<lambda>x_ratio.
                  and_then (fdiv (maturity - t0) (t1 - t0)) (\<lambda>y_ratio.
                    Inr ((1 - x_ratio) * (1 - y_ratio) * v00 +
                         (1 - x_ratio) * y_ratio * v01 +
                         x_ratio * (1 - y_ratio) * v10 +
                         x_ratio * y_ratio * v11))))))))"

subsection \<open>The numeric type beyond the finite numbers\<close>

text \<open>
  The pricing engine divides, takes logarithms and square roots without any check, and
  IEEE arithmetic answers every such operation: with an infinity or a NaN where the
  real numbers have no answer. What the engine returns then depends on how these
  values propagate (a zero volatility gives an infinite \<open>d1\<close> and still a finite price),
  so the engine computes in \<open>fp\<close>: a finite value \<open>Fin x\<close>, \<open>PInf\<close>, \<open>MInf\<close> or \<open>NaN\<close>.
  The operations follow IEEE 754 on these four kinds of value. Two idealisations
  remain: a finite result is the exact real number (no rounding, overflow or
  underflow), and zero carries no sign, a zero divisor counting as \<open>+0\<close>.
\<close>

datatype fp = Fin real | PInf | MInf | NaN

text \<open>The infinity with the sign of \<open>s\<close>; NaN when \<open>s\<close> is zero (as in \<open>0 * inf\<close>, \<open>0 / 0\<close>).\<close>

definition signed_inf :: "real \<Rightarrow> fp" where
  "signed_inf s = (if 0 < s then PInf else if s < 0 then MInf else NaN)"

instantiation fp :: "{plus, minus, uminus, times, inverse}"
begin

fun uminus_fp :: "fp \<Rightarrow> fp" where
  "uminus_fp (Fin a) = Fin (- a)"
| "uminus_fp PInf = MInf"
| "uminus_fp MInf = PInf"
| "uminus_fp NaN = NaN"

fun plus_fp :: "fp \<Rightarrow> fp \<Rightarrow> fp" where
  "plus_fp (Fin a) (Fin b) = Fin (a + b)"
| "plus_fp NaN b = NaN"
| "plus_fp a NaN = NaN"
| "plus_fp PInf MInf = NaN"
| "plus_fp MInf PInf = NaN"
| "plus_fp PInf b = PInf"
| "plus_fp a PInf = PInf"
| "plus_fp MInf b = MInf"
| "plus_fp a MInf = MInf"

definition minus_fp :: "fp \<Rightarrow> fp \<Rightarrow> fp" where
  "minus_fp a b = a + (- b)"

fun times_fp :: "fp \<Rightarrow> fp \<Rightarrow> fp" where
  "times_fp (Fin a) (Fin b) = Fin (a * b)"
| "times_fp NaN b = NaN"
| "times_fp a NaN = NaN"
| "times_fp (Fin a) PInf = signed_inf a"
| "times_fp (Fin a) MInf = signed_inf (- a)"
| "times_fp PInf (Fin b) = signed_inf b"
| "times_fp MInf (Fin b) = signed_inf (- b)"
| "times_fp PInf PInf = PInf"
| "times_fp PInf MInf = MInf"
| "times_fp MInf PInf = MInf"
| "times_fp MInf MInf = PInf"

fun divide_fp :: "fp \<Rightarrow> fp \<Rightarrow> fp" where
  "divide_fp (Fin a) (Fin b) = (if b = 0 then signed_inf a else Fin (a / b))"
| "divide_fp NaN b = NaN"
| "divide_fp a NaN = NaN"
| "divide_fp (Fin a) PInf = Fin 0"
| "divide_fp (Fin a) MInf = Fin 0"
| "divide_fp PInf (Fin b) = (if b < 0 then MInf else PInf)"
| "divide_fp MInf (Fin b) = (if b < 0 then PInf else MInf)"
| "divide_fp PInf PInf = NaN"
| "divide_fp PInf MInf = NaN"
| "divide_fp MInf PInf = NaN"
| "divide_fp MInf MInf = NaN"

definition inverse_fp :: "fp \<Rightarrow> fp" where
  "inverse_fp a = divide (Fin 1) a"

instance ..

end

text \<open>\<^verbatim>\<open>std::log\<close>, \<^verbatim>\<open>std::sqrt\<close> and \<^verbatim>\<open>std::exp\<close> on this type.\<close>

fun log_fp :: "fp \<Rightarrow> fp" where
  "log_fp (Fin x) = (if 0 < x then Fin (ln x) else if x = 0 then MInf else NaN)"
| "log_fp PInf = PInf"
| "log_fp MInf = NaN"
| "log_fp NaN = NaN"

fun sqrt_fp :: "fp \<Rightarrow> fp" where
  "sqrt_fp (Fin x) = (if 0 \<le> x then Fin (sqrt x) else NaN)"
| "sqrt_fp PInf = PInf"
| "sqrt_fp MInf = NaN"
| "sqrt_fp NaN = NaN"

fun exp_fp :: "fp \<Rightarrow> fp" where
  "exp_fp (Fin x) = Fin (exp x)"
| "exp_fp PInf = PInf"
| "exp_fp MInf = Fin 0"
| "exp_fp NaN = NaN"

text \<open>
  \<^verbatim>\<open>std::erf\<close> is the error function of the C++ library. On a finite argument it is given
  by its Maclaurin series, which converges everywhere; its limits are \<open>1\<close> and \<open>- 1\<close>.
\<close>

definition erf :: "real \<Rightarrow> real" where
  "erf x = 2 / sqrt pi * (\<Sum>n. (- 1) ^ n * x ^ (2 * n + 1) / (fact n * real (2 * n + 1)))"

fun erf_fp :: "fp \<Rightarrow> fp" where
  "erf_fp (Fin x) = Fin (erf x)"
| "erf_fp PInf = Fin 1"
| "erf_fp MInf = Fin (- 1)"
| "erf_fp NaN = NaN"

text \<open>
  What a caller of a market-data query receives. An exception passes on. \<open>NonFinite\<close> is
  no exception: the query returned the NaN of a quotient \<open>0 / 0\<close> (in \<open>getVolatility\<close>, a
  weight on a collapsed axis, which enters every term of the returned sum), and the
  caller computes on with it. That the quotient is \<open>0 / 0\<close> in every state that
  satisfies the invariants is shown below (\<open>getRiskFreeRate_finite\<close>,
  \<open>getVolatility_NonFinite\<close>).
\<close>

fun returned :: "error + real \<Rightarrow> error + fp" where
  "returned (Inr v) = Inr (Fin v)"
| "returned (Inl NonFinite) = Inr NaN"
| "returned (Inl e) = Inl e"

subsection \<open>Instrument parameters and the PricingEngine interface\<close>

record parameters =
  notional :: real
  strike :: real
  maturity :: real
  spotPrice :: real
  isCall :: bool

text \<open>
  A pricing engine is the pair of its two virtual methods. An engine receives the
  instrument and reads it through \<open>getParameters()\<close> only, so the model hands it the
  parameters. \<open>default_calculateGreeks\<close> is the body that \<open>PricingEngine\<close> gives to engines
  that do not override \<open>calculateGreeks\<close>.
\<close>

record pricing_engine =
  engine_calculatePrice :: "parameters \<Rightarrow> market_data \<Rightarrow> error + fp"
  engine_calculateGreeks :: "parameters \<Rightarrow> market_data \<Rightarrow> error + (string \<rightharpoonup> fp)"

definition default_calculateGreeks ::
  "parameters \<Rightarrow> market_data \<Rightarrow> error + (string \<rightharpoonup> fp)" where
  "default_calculateGreeks p md = Inl NotImplemented"

subsection \<open>BlackScholesEngine\<close>

definition d1 :: "fp \<Rightarrow> fp \<Rightarrow> fp \<Rightarrow> fp \<Rightarrow> fp \<Rightarrow> fp" where
  "d1 S K r sigma T =
     (log_fp (S / K) + (r + Fin 0.5 * sigma * sigma) * T) / (sigma * sqrt_fp T)"

definition d2 :: "fp \<Rightarrow> fp \<Rightarrow> fp \<Rightarrow> fp \<Rightarrow> fp \<Rightarrow> fp" where
  "d2 S K r sigma T = d1 S K r sigma T - sigma * sqrt_fp T"

definition N :: "fp \<Rightarrow> fp" where
  "N x = Fin 0.5 * (Fin 1 + erf_fp (x / sqrt_fp (Fin 2)))"

definition N_prime :: "fp \<Rightarrow> fp" where
  "N_prime x =
     (Fin 1.0 / sqrt_fp (Fin 2.0 * Fin 3.14159265358979323846)) * exp_fp (- Fin 0.5 * x * x)"

definition calculatePrice :: "real \<Rightarrow> parameters \<Rightarrow> market_data \<Rightarrow> error + fp" where
  "calculatePrice eps params marketData =
     (let S = Fin (spotPrice params);
          K = Fin (strike params);
          mat = Fin (maturity params)
      in and_then (returned (getRiskFreeRate eps marketData (maturity params))) (\<lambda>r.
         and_then (returned (getVolatility marketData (strike params) (maturity params)))
           (\<lambda>sigma.
             let d1_val = d1 S K r sigma mat;
                 d2_val = d2 S K r sigma mat
             in if isCall params
                then Inr (S * N d1_val - K * exp_fp (- r * mat) * N d2_val)
                else Inr (K * exp_fp (- r * mat) * N (- d2_val) - S * N (- d1_val)))))"

definition calculateGreeks ::
  "real \<Rightarrow> parameters \<Rightarrow> market_data \<Rightarrow> error + (string \<rightharpoonup> fp)" where
  "calculateGreeks eps params marketData =
     (let S = Fin (spotPrice params);
          K = Fin (strike params);
          mat = Fin (maturity params);
          is_call = isCall params
      in and_then (returned (getRiskFreeRate eps marketData (maturity params))) (\<lambda>r.
         and_then (returned (getVolatility marketData (strike params) (maturity params)))
           (\<lambda>sigma.
             let d1_val = d1 S K r sigma mat;
                 d2_val = d2 S K r sigma mat;
                 discountFactor = exp_fp (- r * mat);
                 n_prime = N_prime d1_val;
                 greeks0 = Map.empty;
                 greeks1 =
                   greeks0(''delta'' \<mapsto> (if is_call then N d1_val else N d1_val - Fin 1));
                 greeks2 = greeks1(''gamma'' \<mapsto> n_prime / (S * sigma * sqrt_fp mat));
                 greeks3 = greeks2(''vega'' \<mapsto> S * sqrt_fp mat * n_prime * Fin 0.01);
                 theta =
                   (if is_call
                    then (- (S * sigma * n_prime) / (Fin 2 * sqrt_fp mat)
                          - r * K * discountFactor * N d2_val) / Fin 365
                    else (- (S * sigma * n_prime) / (Fin 2 * sqrt_fp mat)
                          + r * K * discountFactor * N (- d2_val)) / Fin 365);
                 greeks4 = greeks3(''theta'' \<mapsto> theta);
                 greeks5 =
                   (if is_call
                    then greeks4(''rho'' \<mapsto> K * mat * discountFactor * N d2_val * Fin 0.01)
                    else greeks4(''rho'' \<mapsto>
                           - K * mat * discountFactor * N (- d2_val) * Fin 0.01))
             in Inr greeks5)))"

definition BlackScholesEngine :: "real \<Rightarrow> pricing_engine" where
  "BlackScholesEngine eps =
     \<lparr>engine_calculatePrice = calculatePrice eps,
      engine_calculateGreeks = calculateGreeks eps\<rparr>"

subsection \<open>EuropeanStockOption\<close>

record european_stock_option =
  params :: parameters
  pricingEngine :: "pricing_engine option"
  marketData :: market_data

definition validate :: "european_stock_option \<Rightarrow> error + unit" where
  "validate opt =
     (if strike (params opt) \<le> 0 then Inl (InvalidArgument ''Strike price must be positive'')
      else if maturity (params opt) \<le> 0
      then Inl (InvalidArgument ''Time to maturity must be positive'')
      else if spotPrice (params opt) \<le> 0
      then Inl (InvalidArgument ''Stock spot price must be positive'')
      else if notional (params opt) \<le> 0
      then Inl (InvalidArgument ''Contract notional must be positive'')
      else Inr ())"

text \<open>
  The constructor stores the parameters, default-initialises the engine pointer (null)
  and the market data (empty), and runs \<open>validate\<close>; an exception there means that no
  object comes into being.
\<close>

definition EuropeanStockOption :: "parameters \<Rightarrow> error + european_stock_option" where
  "EuropeanStockOption ps =
     (let this = \<lparr>params = ps, pricingEngine = None, marketData = empty_market_data\<rparr>
      in and_then (validate this) (\<lambda>_. Inr this))"

definition price :: "european_stock_option \<Rightarrow> error + fp" where
  "price opt =
     (case pricingEngine opt of
        None \<Rightarrow> Inl (EngineNotSet ''Pricing engine not set'')
      | Some engine \<Rightarrow>
          and_then (engine_calculatePrice engine (params opt) (marketData opt))
            (\<lambda>unit_price. Inr (unit_price * Fin (notional (params opt)))))"

definition greeks :: "european_stock_option \<Rightarrow> error + (string \<rightharpoonup> fp)" where
  "greeks opt =
     (case pricingEngine opt of
        None \<Rightarrow> Inl (EngineNotSet ''Pricing engine not set for European stock option'')
      | Some engine \<Rightarrow> engine_calculateGreeks engine (params opt) (marketData opt))"

definition updateMarketData :: "european_stock_option \<Rightarrow> market_data \<Rightarrow> european_stock_option" where
  "updateMarketData opt market = opt\<lparr>marketData := market\<rparr>"

definition setPricingEngine ::
  "european_stock_option \<Rightarrow> pricing_engine option \<Rightarrow> european_stock_option" where
  "setPricingEngine opt engine = opt\<lparr>pricingEngine := engine\<rparr>"

definition getParameters :: "european_stock_option \<Rightarrow> parameters" where
  "getParameters opt = params opt"

subsection \<open>Well-formed and reachable market data\<close>

text \<open>
  \<open>curve_ok\<close> is the representation invariant of the ordered map: its entries are in
  strictly ascending key order. \<open>surface_inv\<close> is the invariant the two axis vectors are
  meant to keep: each is strictly ascending (so free of duplicates) and holds exactly
  the strikes, respectively the maturities, of the keys of the surface. A \<open>MarketData\<close>
  object is reachable when it results from the default constructor by calls of its two
  mutators; the two queries are \<open>const\<close> and leave the object as it is.
\<close>

definition curve_ok :: "market_data \<Rightarrow> bool" where
  "curve_ok md = sorted_wrt (<) (map fst (yield_curve md))"

definition surface_inv :: "market_data \<Rightarrow> bool" where
  "surface_inv md =
     (sorted_wrt (<) (strikes md) \<and> set (strikes md) = fst ` dom (vol_surface md) \<and>
      sorted_wrt (<) (maturities md) \<and> set (maturities md) = snd ` dom (vol_surface md))"

inductive reachable :: "market_data \<Rightarrow> bool" where
  initial: "reachable empty_market_data"
| after_addRiskFreeRate: "reachable md \<Longrightarrow> reachable (snd (addRiskFreeRate md time rate))"
| after_addVolatility: "reachable md \<Longrightarrow> reachable (snd (addVolatility md k t v))"

subsection \<open>Constants and market data of the unit tests\<close>

text \<open>
  \<^verbatim>\<open>std::numeric_limits<double>::epsilon()\<close>, and the objects that the test cases
  "Rate Interpolation" and "Bilinear Interpolation" of \<^verbatim>\<open>MarketDataTests.cpp\<close> and
  "BlackScholesEngine Pricing" of \<^verbatim>\<open>BlackScholesTests.cpp\<close> build.
\<close>

definition epsilon_double :: real where
  "epsilon_double = 1 / 2 ^ 52"

definition test_curve :: market_data where
  "test_curve = snd (addRiskFreeRate (snd (addRiskFreeRate empty_market_data 0.5 0.02)) 1.0 0.03)"

definition test_grid :: market_data where
  "test_grid =
     snd (addVolatility (snd (addVolatility (snd (addVolatility (snd (addVolatility
       empty_market_data 100 1.0 0.20)) 100 2.0 0.25)) 150 1.0 0.22)) 150 2.0 0.28)"

definition test_market :: market_data where
  "test_market = snd (addVolatility (snd (addRiskFreeRate empty_market_data 1.0 0.05)) 100 1.0 0.20)"

text \<open>A sparse surface with two strikes and two maturities: only one diagonal is stored.\<close>

definition sparse_grid :: market_data where
  "sparse_grid = snd (addVolatility (snd (addVolatility empty_market_data 100 2.0 0.25)) 150 1.0 0.22)"

text \<open>
  The surfaces of the test cases "Single Point Surface" and "Missing Data Handling" of
  \<^verbatim>\<open>MarketDataTests.cpp\<close>.
\<close>

definition test_single_point :: market_data where
  "test_single_point = snd (addVolatility empty_market_data 100 1.0 0.20)"

definition test_one_maturity :: market_data where
  "test_one_maturity =
     snd (addVolatility (snd (addVolatility empty_market_data 100 1.0 0.20)) 150 1.0 0.22)"

subsection \<open>The formulas of the specification\<close>

text \<open>
  The closed-form prices as the specification writes them, for spot \<open>S\<close>, strike \<open>K\<close>,
  maturity \<open>T\<close>, rate \<open>r\<close> and volatility \<open>\<sigma>\<close>:
  \<^verbatim>\<open>d1 = (ln(S/K) + (r + sigma^2/2) T) / (sigma sqrt(T))\<close>, \<^verbatim>\<open>d2 = d1 - sigma sqrt(T)\<close>,
  \<^verbatim>\<open>N(x) = 0.5 (1 + erf(x / sqrt(2)))\<close>, \<^verbatim>\<open>call = S N(d1) - K e^(-rT) N(d2)\<close>,
  \<^verbatim>\<open>put = K e^(-rT) N(-d2) - S N(-d1)\<close>. They are what \<open>calculatePrice\<close> is compared with.
\<close>

definition spec_N :: "real \<Rightarrow> real" where
  "spec_N x = 0.5 * (1 + erf (x / sqrt 2))"

definition spec_d1 :: "real \<Rightarrow> real \<Rightarrow> real \<Rightarrow> real \<Rightarrow> real \<Rightarrow> real" where
  "spec_d1 S K T r \<sigma> = (ln (S / K) + (r + \<sigma>\<^sup>2 / 2) * T) / (\<sigma> * sqrt T)"

definition spec_d2 :: "real \<Rightarrow> real \<Rightarrow> real \<Rightarrow> real \<Rightarrow> real \<Rightarrow> real" where
  "spec_d2 S K T r \<sigma> = spec_d1 S K T r \<sigma> - \<sigma> * sqrt T"

definition spec_call :: "real \<Rightarrow> real \<Rightarrow> real \<Rightarrow> real \<Rightarrow> real \<Rightarrow> real" where
  "spec_call S K T r \<sigma> =
     S * spec_N (spec_d1 S K T r \<sigma>) - K * exp (- (r * T)) * spec_N (spec_d2 S K T r \<sigma>)"

definition spec_put :: "real \<Rightarrow> real \<Rightarrow> real \<Rightarrow> real \<Rightarrow> real \<Rightarrow> real" where
  "spec_put S K T r \<sigma> =
     K * exp (- (r * T)) * spec_N (- spec_d2 S K T r \<sigma>) - S * spec_N (- spec_d1 S K T r \<sigma>)"

subsection \<open>Options of the unit tests and constructed options\<close>

text \<open>
  The at-the-money call of \<^verbatim>\<open>EuropeanStockOptionTests.cpp\<close>, the object its constructor
  yields, and that object after \<open>setPricingEngine\<close> and \<open>updateMarketData\<close> as in the test
  case "Price calculation". An option is constructed when the constructor returned it,
  or it results from a constructed one by one of the two setters.
\<close>

definition test_call :: parameters where
  "test_call = \<lparr>notional = 1.0, strike = 100.0, maturity = 1.0, spotPrice = 100.0, isCall = True\<rparr>"

definition unpriced_option :: european_stock_option where
  "unpriced_option = \<lparr>params = test_call, pricingEngine = None, marketData = empty_market_data\<rparr>"

definition test_option :: european_stock_option where
  "test_option =
     updateMarketData
       (setPricingEngine unpriced_option (Some (BlackScholesEngine epsilon_double))) test_market"

text \<open>
  The market of the test case "Zero Volatility Handling" of \<^verbatim>\<open>BlackScholesTests.cpp\<close>
  (the volatility at the option's strike and maturity overwritten with zero), and a
  market and a call whose volatility query falls on the smallest recorded strike of the
  2 x 2 grid.
\<close>

definition zero_vol_market :: market_data where
  "zero_vol_market = snd (addVolatility test_market 100 1.0 0.0)"

definition grid_market :: market_data where
  "grid_market = snd (addRiskFreeRate test_grid 1.0 0.05)"

definition boundary_call :: parameters where
  "boundary_call = test_call\<lparr>maturity := 1.5\<rparr>"

inductive constructed :: "european_stock_option \<Rightarrow> bool" where
  by_constructor: "EuropeanStockOption ps = Inr opt \<Longrightarrow> constructed opt"
| after_setPricingEngine: "constructed opt \<Longrightarrow> constructed (setPricingEngine opt engine)"
| after_updateMarketData: "constructed opt \<Longrightarrow> constructed (updateMarketData opt market)"

section \<open>Basic facts\<close>

lemma and_then_simps [simp]:
  "and_then (Inl e) f = Inl e" "and_then (Inr v) f = f v"
  by (simp_all add: and_then_def)

subsection \<open>The axis vectors\<close>

lemma lower_bound_Nil [simp]: "lower_bound [] x = 0"
  by (simp add: lower_bound_def)

lemma lower_bound_Cons [simp]:
  "lower_bound (y # ys) x = (if y < x then Suc (lower_bound ys x) else 0)"
  by (simp add: lower_bound_def)

lemma insert_if_absent_Nil [simp]: "insert_if_absent x [] = [x]"
  by (simp add: insert_if_absent_def vec_insert_def)

lemma insert_if_absent_Cons [simp]:
  "insert_if_absent x (y # ys) =
     (if y < x then y # insert_if_absent x ys else if y = x then y # ys else x # y # ys)"
  by (auto simp: insert_if_absent_def vec_insert_def Let_def)

lemma set_insert_if_absent [simp]: "set (insert_if_absent x v) = insert x (set v)"
  by (induction v) auto

lemma sorted_insert_if_absent:
  "sorted_wrt (<) v \<Longrightarrow> sorted_wrt (<) (insert_if_absent x v)"
  by (induction v) auto

lemma insert_if_absent_member:
  "sorted_wrt (<) v \<Longrightarrow> x \<in> set v \<Longrightarrow> insert_if_absent x v = v"
  by (induction v) auto

lemma insert_if_absent_insort:
  "sorted_wrt (<) v \<Longrightarrow> x \<notin> set v \<Longrightarrow> insert_if_absent x v = insort x v"
  by (induction v) auto

subsection \<open>The ordered map\<close>

lemma set_map_assign: "fst ` set (map_assign k v c) = insert k (fst ` set c)"
  by (induction c) auto

lemma sorted_map_assign:
  "sorted_wrt (<) (map fst c) \<Longrightarrow> sorted_wrt (<) (map fst (map_assign k v c))"
  by (induction c) (auto simp: set_map_assign)

lemma map_of_map_assign:
  "sorted_wrt (<) (map fst c) \<Longrightarrow> map_of (map_assign k v c) = (map_of c)(k \<mapsto> v)"
  by (induction c) (auto simp: fun_eq_iff)

subsection \<open>Preservation of the invariants\<close>

lemma surface_inv_empty: "surface_inv empty_market_data"
  by (simp add: surface_inv_def empty_market_data_def)

lemma surface_inv_addRiskFreeRate:
  "surface_inv md \<Longrightarrow> surface_inv (snd (addRiskFreeRate md time rate))"
  by (simp add: surface_inv_def addRiskFreeRate_def)

lemma surface_inv_addVolatility:
  "surface_inv md \<Longrightarrow> surface_inv (snd (addVolatility md k t v))"
  by (auto simp: surface_inv_def addVolatility_def Let_def sorted_insert_if_absent)

lemma curve_ok_step:
  "curve_ok empty_market_data"
  "curve_ok md \<Longrightarrow> curve_ok (snd (addRiskFreeRate md time rate))"
  "curve_ok md \<Longrightarrow> curve_ok (snd (addVolatility md k t v))"
  by (simp_all add: curve_ok_def empty_market_data_def addRiskFreeRate_def addVolatility_def
      Let_def sorted_map_assign)

lemma reachable_inv: "reachable md \<Longrightarrow> surface_inv md \<and> curve_ok md"
  by (induction rule: reachable.induct)
     (simp_all add: surface_inv_empty surface_inv_addRiskFreeRate surface_inv_addVolatility
        curve_ok_step)

subsection \<open>Yield-curve lookup\<close>

lemma upper_bound_Nil [simp]: "upper_bound [] t = 0"
  by (simp add: upper_bound_def)

lemma upper_bound_Cons [simp]:
  "upper_bound (e # es) t = (if fst e \<le> t then Suc (upper_bound es t) else 0)"
  by (simp add: upper_bound_def)

lemma upper_bound_all: "\<forall>e\<in>set c. fst e \<le> t \<Longrightarrow> upper_bound c t = length c"
  by (induction c) auto

lemma upper_bound_none: "\<forall>e\<in>set c. t < fst e \<Longrightarrow> upper_bound c t = 0"
  by (cases c) auto

lemma upper_bound_split:
  assumes "sorted_wrt (<) (map fst (xs @ e # ys))" "fst e \<le> t" "\<forall>y\<in>set ys. t < fst y"
  shows "upper_bound (xs @ e # ys) t = Suc (length xs)"
  using assms
proof (induction xs)
  case Nil
  then show ?case by (simp add: upper_bound_none)
next
  case (Cons x xs)
  then have "fst x < fst e" by auto
  with Cons show ?case by simp
qed

text \<open>
  A query at or after the entry \<open>(t0, r0)\<close> and before every later entry: the rate of
  the entry when it is the last one, the interpolation towards the next one otherwise.
\<close>

lemma getRiskFreeRate_at_entry:
  assumes ok: "sorted_wrt (<) (map fst (xs @ (t0, r0) # ys))"
    and c: "yield_curve md = xs @ (t0, r0) # ys"
    and le: "t0 \<le> t" and gt: "\<forall>y\<in>set ys. t < fst y"
  shows "getRiskFreeRate eps md t =
     (if ys = [] \<or> fst (hd ys) - t0 < eps then Inr r0
      else Inr (r0 + (t - t0) / (fst (hd ys) - t0) * (snd (hd ys) - r0)))"
proof (cases ys)
  case Nil
  have "upper_bound (xs @ [(t0, r0)]) t = Suc (length xs)"
    using ok le by (intro upper_bound_split) (simp_all add: Nil)
  then show ?thesis
    by (simp add: getRiskFreeRate_def Let_def c Nil)
next
  case (Cons y ys')
  have "upper_bound (xs @ (t0, r0) # y # ys') t = Suc (length xs)"
    using ok le gt by (intro upper_bound_split) (simp_all add: Cons)
  moreover from ok Cons have "t0 < fst y" by (simp add: sorted_wrt_append)
  ultimately show ?thesis
    by (simp add: getRiskFreeRate_def Let_def c Cons fdiv_def nth_append)
qed

lemma map_assign_mem: "(k, v) \<in> set (map_assign k v c)"
  by (induction c) auto

lemma getRiskFreeRate_stored:
  assumes ok: "sorted_wrt (<) (map fst (yield_curve md))" and mem: "(t, r) \<in> set (yield_curve md)"
  shows "getRiskFreeRate eps md t = Inr r"
proof -
  from mem obtain xs ys where c: "yield_curve md = xs @ (t, r) # ys"
    by (auto simp: in_set_conv_decomp)
  from ok have gt: "\<forall>y\<in>set ys. t < fst y"
    by (auto simp: c sorted_wrt_append)
  from getRiskFreeRate_at_entry [OF ok [unfolded c] c order_refl gt, of eps]
  show ?thesis by simp
qed

lemma yield_curve_test_curve: "yield_curve test_curve = [(1 / 2, 1 / 50), (1, 3 / 100)]"
  by (simp add: test_curve_def addRiskFreeRate_def empty_market_data_def)

subsection \<open>Volatility lookup\<close>

lemma getVolatility_exact: "vol_surface md (k, t) = Some v \<Longrightarrow> getVolatility md k t = Inr v"
  by (simp add: getVolatility_def)

lemma lower_bound_split:
  assumes "sorted_wrt (<) (xs @ a # b # ys)" "a < x" "x \<le> b"
  shows "lower_bound (xs @ a # b # ys) x = Suc (length xs)"
  using assms
proof (induction xs)
  case Nil
  then show ?case by simp
next
  case (Cons y ys')
  then have "y < a" by auto
  with Cons show ?case by simp
qed

lemma bracket_between:
  assumes "sorted_wrt (<) (xs @ a # b # ys)" "a < x" "x \<le> b"
  shows "bracket (xs @ a # b # ys) x = (a, b)"
  using lower_bound_split [OF assms]
  by (simp add: bracket_def nth_append)

lemma bracket_first:
  "bracket (a # ys) a = (a, a)"
  by (simp add: bracket_def)

lemma sorted_hd_Min: "sorted_wrt (<) (v::real list) \<Longrightarrow> v \<noteq> [] \<Longrightarrow> hd v = Min (set v)"
  by (cases v) (auto simp: Min_insert2 less_imp_le)

lemma sorted_last_Max: "sorted_wrt (<) (v::real list) \<Longrightarrow> v \<noteq> [] \<Longrightarrow> last v = Max (set v)"
proof (induction v)
  case Nil
  then show ?case by simp
next
  case (Cons a v)
  show ?case
  proof (cases "v = []")
    case True
    then show ?thesis by simp
  next
    case False
    with Cons have "last v = Max (set v)" by simp
    moreover from Cons.prems False have "a < Max (set v)"
      by (simp add: False)
    ultimately show ?thesis
      using False by (simp add: max_def)
  qed
qed

lemma between_not_member:
  assumes "sorted_wrt (<) (xs @ a # b # (ys::real list))" "a < x" "x < b"
  shows "x \<notin> set (xs @ a # b # ys)"
  using assms by (auto simp: sorted_wrt_append)

lemma between_in_range:
  assumes "sorted_wrt (<) (xs @ a # b # (ys::real list))" "a < x" "x < b"
  shows "\<not> x < hd (xs @ a # b # ys)" "\<not> last (xs @ a # b # ys) < x"
proof -
  have "hd (xs @ a # b # ys) \<le> a"
    using assms(1) by (cases xs) (auto simp: sorted_wrt_append less_imp_le)
  with assms(2) show "\<not> x < hd (xs @ a # b # ys)" by simp
  have "b \<le> last (xs @ a # b # ys)"
    using assms(1) by (cases ys rule: rev_cases) (auto simp: sorted_wrt_append less_imp_le)
  with assms(3) show "\<not> last (xs @ a # b # ys) < x" by simp
qed

text \<open>What \<open>getVolatility\<close> computes once the query is strictly inside a cell of the grid.\<close>

lemma getVolatility_inside:
  assumes inv: "surface_inv md"
    and ks: "strikes md = ks @ k0 # k1 # ks'"
    and ts: "maturities md = ts @ t0 # t1 # ts'"
    and k: "k0 < k" "k < k1" and t: "t0 < t" "t < t1"
  shows "getVolatility md k t =
     and_then (get_vol md k0 t0) (\<lambda>v00.
     and_then (get_vol md k0 t1) (\<lambda>v01.
     and_then (get_vol md k1 t0) (\<lambda>v10.
     and_then (get_vol md k1 t1) (\<lambda>v11.
       Inr ((1 - (k - k0) / (k1 - k0)) * (1 - (t - t0) / (t1 - t0)) * v00 +
            (1 - (k - k0) / (k1 - k0)) * ((t - t0) / (t1 - t0)) * v01 +
            (k - k0) / (k1 - k0) * (1 - (t - t0) / (t1 - t0)) * v10 +
            (k - k0) / (k1 - k0) * ((t - t0) / (t1 - t0)) * v11)))))"
proof -
  from inv have sk: "sorted_wrt (<) (ks @ k0 # k1 # ks')" and st: "sorted_wrt (<) (ts @ t0 # t1 # ts')"
    and dom: "set (strikes md) = fst ` dom (vol_surface md)"
    by (simp_all add: surface_inv_def ks ts)
  have "k \<notin> set (strikes md)"
    unfolding ks using sk k by (rule between_not_member)
  with dom have miss: "vol_surface md (k, t) = None"
    by (force simp: dom_def)
  have bk: "bracket (strikes md) k = (k0, k1)"
    unfolding ks using sk k by (intro bracket_between) simp_all
  have bt: "bracket (maturities md) t = (t0, t1)"
    unfolding ts using st t by (intro bracket_between) simp_all
  have range: "\<not> k < hd (strikes md)" "\<not> last (strikes md) < k"
    "\<not> t < hd (maturities md)" "\<not> last (maturities md) < t"
    unfolding ks ts using between_in_range [OF sk k] between_in_range [OF st t] by simp_all
  have len: "\<not> length (strikes md) = 1" "strikes md \<noteq> []" "\<not> length (strikes md) < 2"
    "maturities md \<noteq> []" "\<not> length (maturities md) < 2"
    by (simp_all add: ks ts)
  from k t have ne: "k0 \<noteq> k1" "t0 \<noteq> t1" "k1 - k0 \<noteq> 0" "t1 - t0 \<noteq> 0" by simp_all
  show ?thesis
    using len range ne by (simp add: getVolatility_def miss bk bt fdiv_def)
qed

lemma get_vol_simps:
  "vol_surface md (k, t) = Some v \<Longrightarrow> get_vol md k t = Inr v"
  "vol_surface md (k, t) = None \<Longrightarrow> get_vol md k t = Inl (MissingDataPoint k t)"
  by (simp_all add: get_vol_def surface_at_def)

lemma test_grid_fields:
  "strikes test_grid = [100, 150]"
  "maturities test_grid = [1, 2]"
  "vol_surface test_grid =
     [(100, 1) \<mapsto> 1 / 5, (100, 2) \<mapsto> 1 / 4, (150, 1) \<mapsto> 11 / 50, (150, 2) \<mapsto> 7 / 25]"
  by (simp_all add: test_grid_def addVolatility_def empty_market_data_def)

lemma sparse_grid_fields:
  "strikes sparse_grid = [100, 150]"
  "maturities sparse_grid = [1, 2]"
  "vol_surface sparse_grid = [(100, 2) \<mapsto> 1 / 4, (150, 1) \<mapsto> 11 / 50]"
  by (simp_all add: sparse_grid_def addVolatility_def empty_market_data_def)

lemma surface_inv_test_grid: "surface_inv test_grid"
  unfolding test_grid_def
  by (intro surface_inv_addVolatility surface_inv_empty)

lemma surface_inv_sparse_grid: "surface_inv sparse_grid"
  unfolding sparse_grid_def
  by (intro surface_inv_addVolatility surface_inv_empty)

lemma getVolatility_test_grid: "getVolatility test_grid 125 1.5 = Inr 0.2375"
  by (simp add: getVolatility_def test_grid_fields bracket_def fdiv_def get_vol_def surface_at_def)

lemma single_point_surface:
  assumes "surface_inv md" "strikes md = [k0]" "maturities md = [t0]"
  shows "dom (vol_surface md) = {(k0, t0)}"
proof -
  from assms have f: "fst ` dom (vol_surface md) = {k0}" and s: "snd ` dom (vol_surface md) = {t0}"
    by (auto simp: surface_inv_def)
  from f obtain p where p: "p \<in> dom (vol_surface md)" by blast
  have "\<And>q. q \<in> dom (vol_surface md) \<Longrightarrow> q = (k0, t0)"
  proof -
    fix q assume "q \<in> dom (vol_surface md)"
    then have "fst q \<in> {k0}" "snd q \<in> {t0}"
      using f s by blast+
    then show "q = (k0, t0)" by (cases q) simp
  qed
  with p show ?thesis by blast
qed

lemma test_single_point_fields:
  "strikes test_single_point = [100]"
  "maturities test_single_point = [1]"
  "vol_surface test_single_point = [(100, 1) \<mapsto> 1 / 5]"
  by (simp_all add: test_single_point_def addVolatility_def empty_market_data_def)

lemma test_one_maturity_fields:
  "strikes test_one_maturity = [100, 150]"
  "maturities test_one_maturity = [1]"
  "vol_surface test_one_maturity = [(100, 1) \<mapsto> 1 / 5, (150, 1) \<mapsto> 11 / 50]"
  by (simp_all add: test_one_maturity_def addVolatility_def empty_market_data_def)

subsection \<open>The error function and the normal distribution\<close>

lemma erf_summable:
  "summable (\<lambda>n. (- 1) ^ n * (x::real) ^ (2 * n + 1) / (fact n * real (2 * n + 1)))"
proof (rule summable_comparison_test')
  show "summable (\<lambda>n. \<bar>x\<bar> * (inverse (fact n) * (x\<^sup>2) ^ n))"
    by (intro summable_mult summable_exp)
next
  fix n :: nat
  have "norm ((- 1) ^ n * x ^ (2 * n + 1) / (fact n * real (2 * n + 1)))
      = \<bar>x\<bar> * (x\<^sup>2) ^ n / (fact n * real (2 * n + 1))"
    by (simp add: abs_mult power_abs power_mult power_even_abs)
  also have "\<dots> \<le> \<bar>x\<bar> * (x\<^sup>2) ^ n / fact n"
    by (intro divide_left_mono) (auto simp: mult_le_cancel_left1 intro!: mult_nonneg_nonneg)
  also have "\<dots> = \<bar>x\<bar> * (inverse (fact n) * (x\<^sup>2) ^ n)"
    by (simp add: divide_inverse)
  finally show "norm ((- 1) ^ n * x ^ (2 * n + 1) / (fact n * real (2 * n + 1)))
      \<le> \<bar>x\<bar> * (inverse (fact n) * (x\<^sup>2) ^ n)" .
qed

lemma erf_minus: "erf (- x) = - erf x"
proof -
  have "(\<Sum>n. (- 1) ^ n * (- x) ^ (2 * n + 1) / (fact n * real (2 * n + 1)))
        = (\<Sum>n. - ((- 1) ^ n * x ^ (2 * n + 1) / (fact n * real (2 * n + 1))))"
    by (simp add: power_minus_odd)
  also have "\<dots> = - (\<Sum>n. (- 1) ^ n * x ^ (2 * n + 1) / (fact n * real (2 * n + 1)))"
    by (rule suminf_minus [OF erf_summable])
  finally show ?thesis by (simp add: erf_def)
qed

lemma erf_zero: "erf 0 = 0"
  using erf_minus [of 0] by simp

lemma spec_N_reflect: "spec_N x + spec_N (- x) = 1"
  by (simp add: spec_N_def erf_minus field_simps)

lemma minus_Fin [simp]: "Fin a - Fin b = Fin (a - b)"
  by (simp add: minus_fp_def)

lemma N_Fin: "N (Fin x) = Fin (spec_N x)"
  by (simp add: N_def spec_N_def)

lemma N_infinite: "N PInf = Fin 1" "N MInf = Fin 0" "N NaN = NaN"
  by (simp_all add: N_def)

lemma d1_Fin:
  assumes "0 < S" "0 < K" "0 < T" "0 < sigma"
  shows "d1 (Fin S) (Fin K) (Fin r) (Fin sigma) (Fin T) = Fin (spec_d1 S K T r sigma)"
  using assms by (simp add: d1_def spec_d1_def power2_eq_square)

lemma d2_Fin:
  assumes "0 < S" "0 < K" "0 < T" "0 < sigma"
  shows "d2 (Fin S) (Fin K) (Fin r) (Fin sigma) (Fin T) = Fin (spec_d2 S K T r sigma)"
  using assms by (simp add: d2_def spec_d2_def d1_Fin)

subsection \<open>The engine on the markets of the unit tests\<close>

lemma test_market_queries:
  "getRiskFreeRate eps test_market 1 = Inr (1 / 20)"
  "getVolatility test_market 100 1 = Inr (1 / 5)"
  by (simp_all add: test_market_def addVolatility_def addRiskFreeRate_def empty_market_data_def
      getRiskFreeRate_def getVolatility_def)

lemma zero_vol_market_queries:
  "getRiskFreeRate eps zero_vol_market 1 = Inr (1 / 20)"
  "getVolatility zero_vol_market 100 1 = Inr 0"
  by (simp_all add: zero_vol_market_def test_market_def addVolatility_def addRiskFreeRate_def
      empty_market_data_def getRiskFreeRate_def getVolatility_def)

text \<open>
  A volatility of zero, as in the test case "Zero Volatility Handling": \<open>d1\<close> and \<open>d2\<close>
  are infinite and the prices are finite, the put being worth nothing.
\<close>

lemma d1_zero_volatility:
  "d1 (Fin 100) (Fin 100) (Fin (1 / 20)) (Fin 0) (Fin 1) = PInf"
  "d2 (Fin 100) (Fin 100) (Fin (1 / 20)) (Fin 0) (Fin 1) = PInf"
  by (simp_all add: d1_def d2_def signed_inf_def minus_fp_def)

lemma calculatePrice_zero_volatility:
  "calculatePrice eps test_call zero_vol_market = Inr (Fin (100 - 100 * exp (- (1 / 20))))"
  "calculatePrice eps (test_call\<lparr>isCall := False\<rparr>) zero_vol_market = Inr (Fin 0)"
  by (simp_all add: calculatePrice_def test_call_def zero_vol_market_queries d1_zero_volatility
      N_infinite)

lemma calculateGreeks_result:
  assumes "calculateGreeks eps p md = Inr g"
  shows "\<exists>a b c d e.
     g = [''delta'' \<mapsto> a, ''gamma'' \<mapsto> b, ''vega'' \<mapsto> c, ''theta'' \<mapsto> d, ''rho'' \<mapsto> e]"
  using assms
  by (auto simp: calculateGreeks_def Let_def and_then_def split: sum.splits if_splits)
     ((intro exI, rule refl)+)

text \<open>The engine throws only what a market-data query throws.\<close>

lemma calculateGreeks_returns:
  "(\<exists>g. calculateGreeks eps p md = Inr g) \<longleftrightarrow>
     (\<exists>r. returned (getRiskFreeRate eps md (maturity p)) = Inr r) \<and>
     (\<exists>s. returned (getVolatility md (strike p) (maturity p)) = Inr s)"
  by (cases "returned (getRiskFreeRate eps md (maturity p))";
      cases "returned (getVolatility md (strike p) (maturity p))")
     (simp_all add: calculateGreeks_def Let_def)

lemma calculatePrice_returns:
  "(\<exists>c. calculatePrice eps p md = Inr c) \<longleftrightarrow>
     (\<exists>r. returned (getRiskFreeRate eps md (maturity p)) = Inr r) \<and>
     (\<exists>s. returned (getVolatility md (strike p) (maturity p)) = Inr s)"
  by (cases "returned (getRiskFreeRate eps md (maturity p))";
      cases "returned (getVolatility md (strike p) (maturity p))")
     (simp_all add: calculatePrice_def Let_def)

lemma N_prime_PInf: "N_prime PInf = Fin 0"
  by (simp add: N_prime_def signed_inf_def)

lemma calculateGreeks_zero_volatility:
  "\<exists>g. calculateGreeks eps test_call zero_vol_market = Inr g \<and>
       g ''delta'' = Some (Fin 1) \<and> g ''gamma'' = Some NaN \<and> g ''vega'' = Some (Fin 0)"
  by (simp add: calculateGreeks_def test_call_def zero_vol_market_queries d1_zero_volatility
      N_infinite N_prime_PInf signed_inf_def)

lemma grid_market_fields:
  "yield_curve grid_market = [(1, 1 / 20)]"
  "strikes grid_market = [100, 150]"
  "maturities grid_market = [1, 2]"
  "vol_surface grid_market = vol_surface test_grid"
  by (simp_all add: grid_market_def addRiskFreeRate_def test_grid_def addVolatility_def
      empty_market_data_def)

lemma grid_market_queries:
  "getRiskFreeRate eps grid_market (3 / 2) = Inr (1 / 20)"
  "getVolatility grid_market 100 (3 / 2) = Inl NonFinite"
  by (simp_all add: getRiskFreeRate_def grid_market_fields test_grid_fields
      getVolatility_def bracket_def fdiv_def get_vol_def surface_at_def)

subsection \<open>Errors that the engine can raise\<close>

lemma getRiskFreeRate_errors:
  "getRiskFreeRate eps md t = Inl e \<Longrightarrow> e = EmptyCurve \<or> e = NonFinite"
  by (auto simp: getRiskFreeRate_def Let_def fdiv_def split: if_splits)

lemma get_vol_errors: "get_vol md k t = Inl e \<Longrightarrow> e = MissingDataPoint k t"
  by (auto simp: get_vol_def split: sum.splits)

lemma surface_at_errors: "surface_at md key = Inl e \<Longrightarrow> e = KeyNotFound"
  by (auto simp: surface_at_def split: option.splits)

lemma and_then_Inl: "and_then m f = Inl e \<Longrightarrow> m = Inl e \<or> (\<exists>v. m = Inr v \<and> f v = Inl e)"
  by (cases m) auto

lemma returned_Inl: "returned m = Inl e \<Longrightarrow> m = Inl e"
  by (cases m rule: returned.cases) auto

lemma getVolatility_errors:
  assumes "getVolatility md k t = Inl e"
  shows "\<forall>m. e \<noteq> EngineNotSet m"
proof (cases "vol_surface md (k, t)")
  case (Some v)
  with assms show ?thesis by (simp add: getVolatility_def)
next
  case None
  obtain k0 k1 where bk: "bracket (strikes md) k = (k0, k1)" by (cases "bracket (strikes md) k")
  obtain t0 t1 where bt: "bracket (maturities md) t = (t0, t1)" by (cases "bracket (maturities md) t")
  from assms show ?thesis
    unfolding getVolatility_def None option.case bk bt Let_def prod.case
    by (auto split: if_splits dest!: and_then_Inl surface_at_errors get_vol_errors
        simp: fdiv_def)
qed

lemma calculatePrice_errors: "calculatePrice eps p md \<noteq> Inl (EngineNotSet m)"
proof
  assume "calculatePrice eps p md = Inl (EngineNotSet m)"
  then show False
    unfolding calculatePrice_def Let_def
    by (auto dest!: and_then_Inl returned_Inl getRiskFreeRate_errors getVolatility_errors
        split: if_splits)
qed

lemma calculateGreeks_errors: "calculateGreeks eps p md \<noteq> Inl (EngineNotSet m)"
proof
  assume "calculateGreeks eps p md = Inl (EngineNotSet m)"
  then show False
    unfolding calculateGreeks_def Let_def
    by (auto dest!: and_then_Inl returned_Inl getRiskFreeRate_errors getVolatility_errors
        split: if_splits)
qed

lemma constructed_valid:
  "constructed opt \<Longrightarrow>
     0 < strike (params opt) \<and> 0 < maturity (params opt) \<and>
     0 < spotPrice (params opt) \<and> 0 < notional (params opt)"
  by (induction rule: constructed.induct)
     (auto simp: EuropeanStockOption_def validate_def setPricingEngine_def updateMarketData_def
        Let_def split: if_splits)

subsection \<open>Queries that leave the finite numbers\<close>

lemma upper_bound_length: "upper_bound c t \<le> length c"
  by (simp add: upper_bound_def length_takeWhile_le)

lemma getRiskFreeRate_finite:
  assumes "curve_ok md"
  shows "getRiskFreeRate eps md t \<noteq> Inl NonFinite"
proof -
  let ?c = "yield_curve md" and ?u = "upper_bound (yield_curve md) t"
  from assms have s: "sorted_wrt (<) (map fst ?c)" by (simp add: curve_ok_def)
  have "fst (?c ! (?u - 1)) < fst (?c ! ?u)" if "0 < ?u" "?u < length ?c"
  proof -
    from that have "map fst ?c ! (?u - 1) < map fst ?c ! ?u"
      by (intro sorted_wrt_nth_less [OF s]) simp_all
    with that show ?thesis by simp
  qed
  then show ?thesis
    using upper_bound_length [of ?c t]
    by (auto simp: getRiskFreeRate_def Let_def fdiv_def)
qed

lemma lower_bound_length: "lower_bound v x \<le> length v"
  by (simp add: lower_bound_def length_takeWhile_le)

lemma lower_bound_whole: "lower_bound v x = length v \<Longrightarrow> \<forall>y\<in>set v. y < x"
  by (induction v) (auto split: if_splits)

text \<open>
  On a sorted axis and a coordinate in range, a bracket of two equal points is the
  coordinate itself: the weight computed from it is the quotient \<open>0 / 0\<close>.
\<close>

lemma bracket_collapsed:
  assumes s: "sorted_wrt (<) v" and ne: "v \<noteq> []"
    and range: "\<not> x < hd v" "\<not> last v < x"
    and b: "bracket v x = (a, b)" and eq: "b - a = 0"
  shows "a = x"
proof -
  let ?l = "lower_bound v x"
  consider "?l = 0" | "?l = length v" "?l \<noteq> 0" | "0 < ?l" "?l < length v"
    using lower_bound_length [of v x] by linarith
  then show ?thesis
  proof cases
    case 1
    with b have a: "a = hd v" using ne by (simp add: bracket_def hd_conv_nth)
    from 1 ne have "\<not> hd v < x" by (cases v) (auto split: if_splits)
    with range(1) a show ?thesis by simp
  next
    case 2
    then have "\<forall>y\<in>set v. y < x" by (intro lower_bound_whole)
    with ne have "last v < x" by simp
    with range(2) show ?thesis by simp
  next
    case 3
    with b have "a = v ! (?l - 1)" "b = v ! ?l" by (simp_all add: bracket_def Let_def)
    moreover from 3 have "v ! (?l - 1) < v ! ?l"
      by (intro sorted_wrt_nth_less [OF s]) simp_all
    ultimately show ?thesis using eq by simp
  qed
qed

text \<open>
  So in a state that satisfies the invariant, a \<open>getVolatility\<close> that leaves the finite
  numbers has computed a weight \<open>0 / 0\<close>, a NaN, on a collapsed axis.
\<close>

lemma getVolatility_NonFinite:
  assumes inv: "surface_inv md" and nf: "getVolatility md k t = Inl NonFinite"
  shows "bracket (strikes md) k = (k, k) \<or> bracket (maturities md) t = (t, t)"
proof (cases "vol_surface md (k, t)")
  case (Some v)
  with nf show ?thesis by (simp add: getVolatility_def)
next
  case None
  from inv have sk: "sorted_wrt (<) (strikes md)" and st: "sorted_wrt (<) (maturities md)"
    by (simp_all add: surface_inv_def)
  obtain k0 k1 where bk: "bracket (strikes md) k = (k0, k1)" by (cases "bracket (strikes md) k")
  obtain t0 t1 where bt: "bracket (maturities md) t = (t0, t1)" by (cases "bracket (maturities md) t")
  from nf have checks: "strikes md \<noteq> []" "maturities md \<noteq> []"
    "\<not> k < hd (strikes md)" "\<not> last (strikes md) < k"
    "\<not> t < hd (maturities md)" "\<not> last (maturities md) < t"
    and zero: "k1 - k0 = 0 \<or> t1 - t0 = 0"
    unfolding getVolatility_def None option.case bk bt Let_def prod.case
    by (auto split: if_splits dest!: and_then_Inl surface_at_errors get_vol_errors
        simp: fdiv_def)
  from zero show ?thesis
  proof
    assume z: "k1 - k0 = 0"
    from bracket_collapsed [OF sk checks(1,3,4) bk z] z bk show ?thesis by simp
  next
    assume z: "t1 - t0 = 0"
    from bracket_collapsed [OF st checks(2,5,6) bt z] z bt show ?thesis by simp
  qed
qed

section \<open>The claims\<close>

text \<open>
  C7. The invariant of MarketData holds in the empty initial state and after every
  operation: in every reachable state the strikes vector and the maturities vector are
  sorted ascending and duplicate-free, and they are exactly the strikes and the
  maturities that occur in the keys of the volatility surface. A further
  \<open>addRiskFreeRate\<close> or \<open>addVolatility\<close>, failing or not, leads to a state with the same
  property. \<open>addVolatility\<close> computes the new vectors from the old vectors and the new
  coordinate alone, by insert-if-absent: a coordinate already present leaves the vector
  as it is, a new one is put at its sorted position.
\<close>

theorem MarketData_invariant:
  assumes "reachable md"
  shows "surface_inv md \<and>
         distinct (strikes md) \<and> distinct (maturities md) \<and>
         sorted (strikes md) \<and> sorted (maturities md) \<and>
         surface_inv (snd (addRiskFreeRate md time rate)) \<and>
         surface_inv (snd (addVolatility md k t v)) \<and>
         strikes (snd (addVolatility md k t v)) =
           (if fst (addVolatility md k t v) = None \<and> k \<notin> set (strikes md)
            then insort k (strikes md) else strikes md) \<and>
         maturities (snd (addVolatility md k t v)) =
           (if fst (addVolatility md k t v) = None \<and> t \<notin> set (maturities md)
            then insort t (maturities md) else maturities md)"
proof -
  from assms have inv: "surface_inv md"
    by (simp add: reachable_inv)
  then have ks: "sorted_wrt (<) (strikes md)" and ts: "sorted_wrt (<) (maturities md)"
    by (simp_all add: surface_inv_def)
  have "distinct (strikes md)" "distinct (maturities md)"
    using ks ts by (simp_all add: strict_sorted_iff)
  moreover have "sorted (strikes md)" "sorted (maturities md)"
    using ks ts by (simp_all add: strict_sorted_iff)
  moreover have "strikes (snd (addVolatility md k t v)) =
      (if fst (addVolatility md k t v) = None \<and> k \<notin> set (strikes md)
       then insort k (strikes md) else strikes md)"
    using ks by (simp add: addVolatility_def Let_def insert_if_absent_member
        insert_if_absent_insort)
  moreover have "maturities (snd (addVolatility md k t v)) =
      (if fst (addVolatility md k t v) = None \<and> t \<notin> set (maturities md)
       then insort t (maturities md) else maturities md)"
    using ts by (simp add: addVolatility_def Let_def insert_if_absent_member
        insert_if_absent_insort)
  ultimately show ?thesis
    using inv by (simp add: surface_inv_addRiskFreeRate surface_inv_addVolatility)
qed

theorem MarketData_invariant_witness:
  "reachable (snd (addVolatility empty_market_data 150 2 (1 / 4))) \<and>
   surface_inv (snd (addVolatility empty_market_data 150 2 (1 / 4))) \<and>
   strikes (snd (addVolatility (snd (addVolatility empty_market_data 150 2 (1 / 4))) 100 1 (1 / 5)))
     = [100, 150] \<and>
   maturities (snd (addVolatility (snd (addVolatility empty_market_data 150 2 (1 / 4))) 100 1 (1 / 5)))
     = [1, 2]"
proof -
  have r: "reachable (snd (addVolatility empty_market_data 150 2 (1 / 4)))"
    by (intro reachable.intros)
  have s: "strikes (snd (addVolatility empty_market_data 150 2 (1 / 4))) = [150]"
    and m: "maturities (snd (addVolatility empty_market_data 150 2 (1 / 4))) = [2]"
    by (simp_all add: addVolatility_def empty_market_data_def)
  have ok: "fst (addVolatility (snd (addVolatility empty_market_data 150 2 (1 / 4))) 100 1 (1 / 5))
      = None"
    by (simp add: addVolatility_def)
  from MarketData_invariant [OF r, of _ _ 100 1 "1 / 5"] show ?thesis
    using r by (simp add: s m ok)
qed

text \<open>
  C2. \<open>getRiskFreeRate\<close> on a yield curve (an ordered map, so with strictly ascending
  times) and a query time \<open>t\<close>: an empty curve fails with \<open>EmptyCurve\<close>; a curve of exactly
  one point \<open>(t0, r0)\<close> returns \<open>r0\<close> for every \<open>t\<close>; a curve of two or more points returns
  the first point's rate when \<open>t\<close> is before the first stored time, the last point's rate
  when no stored time is strictly greater than \<open>t\<close>, and otherwise, for the two adjacent
  points \<open>(t0, r0)\<close>, \<open>(t1, r1)\<close> that bracket \<open>t\<close>, the value
  \<open>r0 + (t - t0) / (t1 - t0) * (r1 - r0)\<close>, except that it returns \<open>r0\<close> when \<open>t1 - t0\<close> is
  smaller than the machine epsilon. At the midpoint of a two-point curve this is
  \<open>(r0 + r1) / 2\<close>.
\<close>

theorem getRiskFreeRate_cases:
  assumes "curve_ok md"
  shows
   "(yield_curve md = [] \<longrightarrow> getRiskFreeRate eps md t = Inl EmptyCurve) \<and>
    (yield_curve md = [(t0, r0)] \<longrightarrow> getRiskFreeRate eps md t = Inr r0) \<and>
    (2 \<le> length (yield_curve md) \<and> t < fst (hd (yield_curve md)) \<longrightarrow>
       getRiskFreeRate eps md t = Inr (snd (hd (yield_curve md)))) \<and>
    (2 \<le> length (yield_curve md) \<and> (\<forall>e\<in>set (yield_curve md). \<not> t < fst e) \<longrightarrow>
       getRiskFreeRate eps md t = Inr (snd (last (yield_curve md)))) \<and>
    (yield_curve md = xs @ (t0, r0) # (t1, r1) # ys \<and> t0 \<le> t \<and> t < t1 \<longrightarrow>
       getRiskFreeRate eps md t =
         (if t1 - t0 < eps then Inr r0 else Inr (r0 + (t - t0) / (t1 - t0) * (r1 - r0)))) \<and>
    (yield_curve md = [(t0, r0), (t1, r1)] \<and> \<not> t1 - t0 < eps \<longrightarrow>
       getRiskFreeRate eps md ((t0 + t1) / 2) = Inr ((r0 + r1) / 2))"
proof -
  from assms have ok: "sorted_wrt (<) (map fst (yield_curve md))"
    by (simp add: curve_ok_def)
  have empty: "yield_curve md = [] \<longrightarrow> getRiskFreeRate eps md t = Inl EmptyCurve"
    by (simp add: getRiskFreeRate_def)
  have single: "yield_curve md = [(t0, r0)] \<longrightarrow> getRiskFreeRate eps md t = Inr r0"
    by (simp add: getRiskFreeRate_def Let_def)
  have below: "2 \<le> length (yield_curve md) \<and> t < fst (hd (yield_curve md)) \<longrightarrow>
       getRiskFreeRate eps md t = Inr (snd (hd (yield_curve md)))"
  proof (cases "yield_curve md")
    case Nil
    then show ?thesis by simp
  next
    case (Cons e es)
    then show ?thesis
      by (auto simp: getRiskFreeRate_def Let_def)
  qed
  have above: "2 \<le> length (yield_curve md) \<and> (\<forall>e\<in>set (yield_curve md). \<not> t < fst e) \<longrightarrow>
       getRiskFreeRate eps md t = Inr (snd (last (yield_curve md)))"
  proof (intro impI, elim conjE)
    assume len: "2 \<le> length (yield_curve md)" and all: "\<forall>e\<in>set (yield_curve md). \<not> t < fst e"
    from all have "upper_bound (yield_curve md) t = length (yield_curve md)"
      by (intro upper_bound_all) (auto simp: not_less)
    moreover from len have "yield_curve md \<noteq> []" by auto
    ultimately show "getRiskFreeRate eps md t = Inr (snd (last (yield_curve md)))"
      using len by (simp add: getRiskFreeRate_def Let_def last_conv_nth)
  qed
  have between: "yield_curve md = xs @ (t0, r0) # (t1, r1) # ys \<and> t0 \<le> t \<and> t < t1 \<longrightarrow>
       getRiskFreeRate eps md t =
         (if t1 - t0 < eps then Inr r0 else Inr (r0 + (t - t0) / (t1 - t0) * (r1 - r0)))"
  proof (intro impI, elim conjE)
    assume c: "yield_curve md = xs @ (t0, r0) # (t1, r1) # ys" and le: "t0 \<le> t" and lt: "t < t1"
    from ok c have "\<forall>y\<in>set ys. t1 < fst y"
      by (auto simp: sorted_wrt_append)
    with lt have "\<forall>y\<in>set ((t1, r1) # ys). t < fst y" by auto
    from getRiskFreeRate_at_entry [OF ok [unfolded c] c le this, of eps]
    show "getRiskFreeRate eps md t =
         (if t1 - t0 < eps then Inr r0 else Inr (r0 + (t - t0) / (t1 - t0) * (r1 - r0)))"
      by simp
  qed
  have midpoint: "yield_curve md = [(t0, r0), (t1, r1)] \<and> \<not> t1 - t0 < eps \<longrightarrow>
       getRiskFreeRate eps md ((t0 + t1) / 2) = Inr ((r0 + r1) / 2)"
  proof (intro impI, elim conjE)
    assume c: "yield_curve md = [(t0, r0), (t1, r1)]" and ne: "\<not> t1 - t0 < eps"
    from ok c have lt: "t0 < t1" by simp
    have c': "yield_curve md = [] @ (t0, r0) # [(t1, r1)]" using c by simp
    have "getRiskFreeRate eps md ((t0 + t1) / 2)
        = Inr (r0 + ((t0 + t1) / 2 - t0) / (t1 - t0) * (r1 - r0))"
      using getRiskFreeRate_at_entry [OF ok [unfolded c'] c', of "(t0 + t1) / 2" eps] lt ne
      by simp
    also have "((t0 + t1) / 2 - t0) / (t1 - t0) = 1 / 2"
      using lt by (simp add: field_simps)
    finally show "getRiskFreeRate eps md ((t0 + t1) / 2) = Inr ((r0 + r1) / 2)"
      by (simp add: field_simps)
  qed
  from empty single below above between midpoint show ?thesis by blast
qed

theorem getRiskFreeRate_cases_witness:
  "curve_ok test_curve \<and>
   getRiskFreeRate epsilon_double test_curve (3 / 4) = Inr (1 / 40) \<and>
   getRiskFreeRate epsilon_double test_curve (1 / 4) = Inr (1 / 50) \<and>
   getRiskFreeRate epsilon_double test_curve 2 = Inr (3 / 100) \<and>
   curve_ok empty_market_data \<and>
   getRiskFreeRate epsilon_double empty_market_data (1 / 2) = Inl EmptyCurve"
proof -
  have ok: "curve_ok test_curve"
    by (simp add: curve_ok_def yield_curve_test_curve)
  have ok0: "curve_ok empty_market_data"
    by (simp add: curve_ok_def empty_market_data_def)
  have eps: "\<not> (1 / 2 < epsilon_double)"
    by (simp add: epsilon_double_def)
  from getRiskFreeRate_cases [OF ok, where xs = "[]" and ?t0.0 = "1 / 2" and ?r0.0 = "1 / 50"
      and ?t1.0 = 1 and ?r1.0 = "3 / 100" and ys = "[]" and t = "3 / 4" and eps = epsilon_double]
  have mid: "getRiskFreeRate epsilon_double test_curve (3 / 4) = Inr (1 / 40)"
    using eps by (simp add: yield_curve_test_curve)
  from getRiskFreeRate_cases [OF ok, where xs = "[]" and ?t0.0 = "1 / 2" and ?r0.0 = "1 / 50"
      and ?t1.0 = 1 and ?r1.0 = "3 / 100" and ys = "[]" and t = "1 / 4" and eps = epsilon_double]
  have lo: "getRiskFreeRate epsilon_double test_curve (1 / 4) = Inr (1 / 50)"
    by (simp add: yield_curve_test_curve)
  from getRiskFreeRate_cases [OF ok, where xs = "[]" and ?t0.0 = "1 / 2" and ?r0.0 = "1 / 50"
      and ?t1.0 = 1 and ?r1.0 = "3 / 100" and ys = "[]" and t = 2 and eps = epsilon_double]
  have hi: "getRiskFreeRate epsilon_double test_curve 2 = Inr (3 / 100)"
    by (simp add: yield_curve_test_curve)
  from getRiskFreeRate_cases [OF ok0, where t = "1 / 2" and eps = epsilon_double]
  have none: "getRiskFreeRate epsilon_double empty_market_data (1 / 2) = Inl EmptyCurve"
    by (simp add: empty_market_data_def)
  from ok ok0 mid lo hi none show ?thesis by simp
qed

text \<open>
  C8. \<open>addRiskFreeRate\<close> fails, with \<open>InvalidArgument\<close>, if and only if \<open>time < 0\<close> or
  \<open>rate < 0\<close>; \<open>addVolatility\<close> fails, with \<open>InvalidArgument\<close>, if and only if
  \<open>strike \<le> 0\<close>, \<open>maturity < 0\<close> or \<open>vol < 0\<close>. A failing call leaves the MarketData
  exactly as it was. A successful call stores the value at its key, inserting the key or
  overwriting the value stored there, so that a query at the key returns the value
  written last: after adding \<open>(1.0, 0.03)\<close> and then \<open>(1.0, 0.04)\<close> the rate at \<open>1.0\<close> is
  \<open>0.04\<close>.
\<close>

theorem add_operations:
  "fst (addRiskFreeRate md time rate) =
     (if time < 0 \<or> rate < 0 then Some (InvalidArgument ''Invalid time/rate'') else None) \<and>
   fst (addVolatility md k t v) =
     (if k \<le> 0 \<or> t < 0 \<or> v < 0
      then Some (InvalidArgument ''Invalid strike/maturity/volatility'') else None) \<and>
   (fst (addRiskFreeRate md time rate) \<noteq> None \<longrightarrow> snd (addRiskFreeRate md time rate) = md) \<and>
   (fst (addVolatility md k t v) \<noteq> None \<longrightarrow> snd (addVolatility md k t v) = md) \<and>
   (fst (addRiskFreeRate md time rate) = None \<and> curve_ok md \<longrightarrow>
      map_of (yield_curve (snd (addRiskFreeRate md time rate)))
        = (map_of (yield_curve md))(time \<mapsto> rate) \<and>
      getRiskFreeRate eps (snd (addRiskFreeRate md time rate)) time = Inr rate) \<and>
   (fst (addVolatility md k t v) = None \<longrightarrow>
      vol_surface (snd (addVolatility md k t v)) = (vol_surface md)((k, t) \<mapsto> v) \<and>
      getVolatility (snd (addVolatility md k t v)) k t = Inr v) \<and>
   getRiskFreeRate eps
     (snd (addRiskFreeRate (snd (addRiskFreeRate empty_market_data 1.0 0.03)) 1.0 0.04)) 1.0
     = Inr 0.04"
proof -
  have fail_rate: "fst (addRiskFreeRate md time rate) =
     (if time < 0 \<or> rate < 0 then Some (InvalidArgument ''Invalid time/rate'') else None)"
    by (simp add: addRiskFreeRate_def)
  have fail_vol: "fst (addVolatility md k t v) =
     (if k \<le> 0 \<or> t < 0 \<or> v < 0
      then Some (InvalidArgument ''Invalid strike/maturity/volatility'') else None)"
    by (simp add: addVolatility_def Let_def)
  have atomic_rate: "fst (addRiskFreeRate md time rate) \<noteq> None \<longrightarrow>
      snd (addRiskFreeRate md time rate) = md"
    by (simp add: addRiskFreeRate_def)
  have atomic_vol: "fst (addVolatility md k t v) \<noteq> None \<longrightarrow> snd (addVolatility md k t v) = md"
    by (simp add: addVolatility_def Let_def)
  have write_rate: "fst (addRiskFreeRate md time rate) = None \<and> curve_ok md \<longrightarrow>
      map_of (yield_curve (snd (addRiskFreeRate md time rate)))
        = (map_of (yield_curve md))(time \<mapsto> rate) \<and>
      getRiskFreeRate eps (snd (addRiskFreeRate md time rate)) time = Inr rate"
  proof (intro impI, elim conjE)
    assume succ: "fst (addRiskFreeRate md time rate) = None" and ok: "curve_ok md"
    from succ have c: "yield_curve (snd (addRiskFreeRate md time rate))
        = map_assign time rate (yield_curve md)"
      by (auto simp: addRiskFreeRate_def split: if_splits)
    from ok have sorted: "sorted_wrt (<) (map fst (yield_curve md))"
      by (simp add: curve_ok_def)
    then have "sorted_wrt (<) (map fst (yield_curve (snd (addRiskFreeRate md time rate))))"
      by (simp add: c sorted_map_assign)
    moreover have "(time, rate) \<in> set (yield_curve (snd (addRiskFreeRate md time rate)))"
      by (simp add: c map_assign_mem)
    ultimately have "getRiskFreeRate eps (snd (addRiskFreeRate md time rate)) time = Inr rate"
      by (rule getRiskFreeRate_stored)
    then show "map_of (yield_curve (snd (addRiskFreeRate md time rate)))
        = (map_of (yield_curve md))(time \<mapsto> rate) \<and>
      getRiskFreeRate eps (snd (addRiskFreeRate md time rate)) time = Inr rate"
      using sorted by (simp add: c map_of_map_assign)
  qed
  have write_vol: "fst (addVolatility md k t v) = None \<longrightarrow>
      vol_surface (snd (addVolatility md k t v)) = (vol_surface md)((k, t) \<mapsto> v) \<and>
      getVolatility (snd (addVolatility md k t v)) k t = Inr v"
  proof
    assume "fst (addVolatility md k t v) = None"
    then have "vol_surface (snd (addVolatility md k t v)) = (vol_surface md)((k, t) \<mapsto> v)"
      by (auto simp: addVolatility_def Let_def split: if_splits)
    then show "vol_surface (snd (addVolatility md k t v)) = (vol_surface md)((k, t) \<mapsto> v) \<and>
      getVolatility (snd (addVolatility md k t v)) k t = Inr v"
      by (simp add: getVolatility_exact)
  qed
  have example: "getRiskFreeRate eps
     (snd (addRiskFreeRate (snd (addRiskFreeRate empty_market_data 1.0 0.03)) 1.0 0.04)) 1.0
     = Inr 0.04"
    by (simp add: addRiskFreeRate_def empty_market_data_def getRiskFreeRate_def)
  from fail_rate fail_vol atomic_rate atomic_vol write_rate write_vol example
  show ?thesis by blast
qed

theorem add_operations_witness:
  "fst (addRiskFreeRate empty_market_data (- (1 / 2)) (1 / 50))
     = Some (InvalidArgument ''Invalid time/rate'') \<and>
   snd (addRiskFreeRate empty_market_data (- (1 / 2)) (1 / 50)) = empty_market_data \<and>
   fst (addVolatility empty_market_data (- 100) 1 (1 / 5))
     = Some (InvalidArgument ''Invalid strike/maturity/volatility'') \<and>
   snd (addVolatility empty_market_data (- 100) 1 (1 / 5)) = empty_market_data \<and>
   fst (addRiskFreeRate empty_market_data 1 (3 / 100)) = None \<and>
   curve_ok empty_market_data \<and>
   getRiskFreeRate epsilon_double (snd (addRiskFreeRate empty_market_data 1 (3 / 100))) 1
     = Inr (3 / 100) \<and>
   fst (addVolatility empty_market_data 100 1 (1 / 5)) = None \<and>
   getVolatility (snd (addVolatility empty_market_data 100 1 (1 / 5))) 100 1 = Inr (1 / 5)"
proof -
  have ok: "curve_ok empty_market_data"
    by (simp add: curve_ok_def empty_market_data_def)
  from add_operations [of empty_market_data "- (1 / 2)" "1 / 50" "- 100" 1 "1 / 5" epsilon_double]
  have failing:
    "fst (addRiskFreeRate empty_market_data (- (1 / 2)) (1 / 50))
       = Some (InvalidArgument ''Invalid time/rate'')"
    "snd (addRiskFreeRate empty_market_data (- (1 / 2)) (1 / 50)) = empty_market_data"
    "fst (addVolatility empty_market_data (- 100) 1 (1 / 5))
       = Some (InvalidArgument ''Invalid strike/maturity/volatility'')"
    "snd (addVolatility empty_market_data (- 100) 1 (1 / 5)) = empty_market_data"
    by simp_all
  from add_operations [of empty_market_data 1 "3 / 100" 100 1 "1 / 5" epsilon_double]
  have succeeding:
    "fst (addRiskFreeRate empty_market_data 1 (3 / 100)) = None"
    "getRiskFreeRate epsilon_double (snd (addRiskFreeRate empty_market_data 1 (3 / 100))) 1
       = Inr (3 / 100)"
    "fst (addVolatility empty_market_data 100 1 (1 / 5)) = None"
    "getVolatility (snd (addVolatility empty_market_data 100 1 (1 / 5))) 100 1 = Inr (1 / 5)"
    using ok by simp_all
  from failing succeeding ok show ?thesis by simp
qed

text \<open>
  C3. A \<open>getVolatility\<close> query \<open>(k, t)\<close> that lies strictly between two adjacent recorded
  strikes \<open>k0 < k1\<close> and strictly between two adjacent recorded maturities \<open>t0 < t1\<close>:
  when the four corner values \<open>v00\<close>, \<open>v01\<close>, \<open>v10\<close>, \<open>v11\<close> are all stored, the result is
  \<open>(1 - x) (1 - y) v00 + (1 - x) y v01 + x (1 - y) v10 + x y v11\<close> with
  \<open>x = (k - k0) / (k1 - k0)\<close> and \<open>y = (t - t0) / (t1 - t0)\<close>; when one of the corners is
  absent from the surface, the query fails with \<open>MissingDataPoint\<close> for an absent corner.
  On the 2 x 2 grid of the unit test, \<open>getVolatility 125 1.5\<close> is \<open>0.2375\<close>.
\<close>

theorem getVolatility_bilinear:
  assumes "surface_inv md"
    and "strikes md = ks @ k0 # k1 # ks'" and "maturities md = ts @ t0 # t1 # ts'"
    and "k0 < k" "k < k1" "t0 < t" "t < t1"
  shows
   "(vol_surface md (k0, t0) = Some v00 \<and> vol_surface md (k0, t1) = Some v01 \<and>
     vol_surface md (k1, t0) = Some v10 \<and> vol_surface md (k1, t1) = Some v11 \<longrightarrow>
       getVolatility md k t =
         (let x = (k - k0) / (k1 - k0); y = (t - t0) / (t1 - t0)
          in Inr ((1 - x) * (1 - y) * v00 + (1 - x) * y * v01 + x * (1 - y) * v10 + x * y * v11))) \<and>
    (vol_surface md (k0, t0) = None \<or> vol_surface md (k0, t1) = None \<or>
     vol_surface md (k1, t0) = None \<or> vol_surface md (k1, t1) = None \<longrightarrow>
       (\<exists>k' t'. getVolatility md k t = Inl (MissingDataPoint k' t') \<and>
          k' \<in> {k0, k1} \<and> t' \<in> {t0, t1} \<and> vol_surface md (k', t') = None)) \<and>
    getVolatility test_grid 125 1.5 = Inr 0.2375"
proof -
  note inside = getVolatility_inside [OF assms]
  have stored: "vol_surface md (k0, t0) = Some v00 \<and> vol_surface md (k0, t1) = Some v01 \<and>
     vol_surface md (k1, t0) = Some v10 \<and> vol_surface md (k1, t1) = Some v11 \<longrightarrow>
       getVolatility md k t =
         (let x = (k - k0) / (k1 - k0); y = (t - t0) / (t1 - t0)
          in Inr ((1 - x) * (1 - y) * v00 + (1 - x) * y * v01 + x * (1 - y) * v10 + x * y * v11))"
    by (simp add: inside get_vol_simps Let_def)
  have missing: "vol_surface md (k0, t0) = None \<or> vol_surface md (k0, t1) = None \<or>
     vol_surface md (k1, t0) = None \<or> vol_surface md (k1, t1) = None \<longrightarrow>
       (\<exists>k' t'. getVolatility md k t = Inl (MissingDataPoint k' t') \<and>
          k' \<in> {k0, k1} \<and> t' \<in> {t0, t1} \<and> vol_surface md (k', t') = None)"
  proof (cases "vol_surface md (k0, t0)")
    case None
    then show ?thesis by (auto simp: inside get_vol_simps)
  next
    case a: (Some a)
    show ?thesis
    proof (cases "vol_surface md (k0, t1)")
      case None
      with a show ?thesis by (auto simp: inside get_vol_simps)
    next
      case b: (Some b)
      show ?thesis
      proof (cases "vol_surface md (k1, t0)")
        case None
        with a b show ?thesis by (auto simp: inside get_vol_simps)
      next
        case c: (Some c)
        show ?thesis
        proof (cases "vol_surface md (k1, t1)")
          case None
          with a b c show ?thesis by (auto simp: inside get_vol_simps)
        next
          case (Some d)
          with a b c show ?thesis by simp
        qed
      qed
    qed
  qed
  from stored missing getVolatility_test_grid show ?thesis by blast
qed

theorem getVolatility_bilinear_witness:
  "surface_inv test_grid \<and> strikes test_grid = [] @ 100 # 150 # [] \<and>
   maturities test_grid = [] @ 1 # 2 # [] \<and>
   getVolatility test_grid 125 (3 / 2) = Inr (19 / 80) \<and>
   surface_inv sparse_grid \<and> strikes sparse_grid = [] @ 100 # 150 # [] \<and>
   maturities sparse_grid = [] @ 1 # 2 # [] \<and>
   (\<exists>k' t'. getVolatility sparse_grid 125 (3 / 2) = Inl (MissingDataPoint k' t'))"
proof -
  have g: "strikes test_grid = [] @ 100 # 150 # []" "maturities test_grid = [] @ 1 # 2 # []"
    by (simp_all add: test_grid_fields)
  have s: "strikes sparse_grid = [] @ 100 # 150 # []" "maturities sparse_grid = [] @ 1 # 2 # []"
    by (simp_all add: sparse_grid_fields)
  from getVolatility_bilinear [OF surface_inv_test_grid g, of 125 "3 / 2" "1 / 5" "1 / 4" "11 / 50" "7 / 25"]
  have full: "getVolatility test_grid 125 (3 / 2) = Inr (19 / 80)"
    by (simp add: test_grid_fields)
  from getVolatility_bilinear [OF surface_inv_sparse_grid s, of 125 "3 / 2"]
  have sparse: "\<exists>k' t'. getVolatility sparse_grid 125 (3 / 2) = Inl (MissingDataPoint k' t')"
    by (auto simp: sparse_grid_fields)
  from surface_inv_test_grid surface_inv_sparse_grid g s full sparse show ?thesis by blast
qed

text \<open>
  C6. In every state that satisfies the invariant, a \<open>getVolatility\<close> query \<open>(k, t)\<close>
  whose exact key is stored returns the stored value. Otherwise, when the surface has
  recorded exactly one strike \<open>k0\<close> and exactly one maturity \<open>t0\<close>, the surface holds the
  single point \<open>(k0, t0)\<close> and its value is returned whatever \<open>k\<close> and \<open>t\<close> are. Otherwise
  the query fails: with \<open>UninitializedSurface\<close> when an axis has no recorded point; else
  with \<open>InsufficientData\<close> when an axis has fewer than two recorded points; else with
  \<open>OutOfBounds\<close> when \<open>k\<close> is below the smallest or above the largest recorded strike,
  or (with \<open>k\<close> in range) \<open>t\<close> is below the smallest or above the largest recorded
  maturity.
\<close>

theorem getVolatility_shortcuts_and_errors:
  assumes inv: "surface_inv md"
  shows
   "(vol_surface md (k, t) = Some v \<longrightarrow> getVolatility md k t = Inr v) \<and>
    (vol_surface md (k, t) = None \<and> strikes md = [k0] \<and> maturities md = [t0] \<longrightarrow>
       dom (vol_surface md) = {(k0, t0)} \<and>
       (\<exists>v0. vol_surface md (k0, t0) = Some v0 \<and> getVolatility md k t = Inr v0)) \<and>
    (vol_surface md (k, t) = None \<and>
     \<not> (length (strikes md) = 1 \<and> length (maturities md) = 1) \<and>
     (length (strikes md) = 0 \<or> length (maturities md) = 0) \<longrightarrow>
       getVolatility md k t = Inl UninitializedSurface) \<and>
    (vol_surface md (k, t) = None \<and>
     \<not> (length (strikes md) = 1 \<and> length (maturities md) = 1) \<and>
     0 < length (strikes md) \<and> 0 < length (maturities md) \<and>
     (length (strikes md) < 2 \<or> length (maturities md) < 2) \<longrightarrow>
       getVolatility md k t = Inl InsufficientData) \<and>
    (vol_surface md (k, t) = None \<and> 2 \<le> length (strikes md) \<and> 2 \<le> length (maturities md) \<and>
     (k < Min (set (strikes md)) \<or> Max (set (strikes md)) < k) \<longrightarrow>
       getVolatility md k t = Inl (OutOfBounds ''Strike out of bounds'')) \<and>
    (vol_surface md (k, t) = None \<and> 2 \<le> length (strikes md) \<and> 2 \<le> length (maturities md) \<and>
     Min (set (strikes md)) \<le> k \<and> k \<le> Max (set (strikes md)) \<and>
     (t < Min (set (maturities md)) \<or> Max (set (maturities md)) < t) \<longrightarrow>
       getVolatility md k t = Inl (OutOfBounds ''Maturity out of bounds''))"
proof -
  from inv have sk: "sorted_wrt (<) (strikes md)" and st: "sorted_wrt (<) (maturities md)"
    by (simp_all add: surface_inv_def)
  have exact: "vol_surface md (k, t) = Some v \<longrightarrow> getVolatility md k t = Inr v"
    by (simp add: getVolatility_exact)
  have single: "vol_surface md (k, t) = None \<and> strikes md = [k0] \<and> maturities md = [t0] \<longrightarrow>
       dom (vol_surface md) = {(k0, t0)} \<and>
       (\<exists>v0. vol_surface md (k0, t0) = Some v0 \<and> getVolatility md k t = Inr v0)"
  proof (intro impI, elim conjE)
    assume miss: "vol_surface md (k, t) = None" and one: "strikes md = [k0]" "maturities md = [t0]"
    from single_point_surface [OF inv one] have d: "dom (vol_surface md) = {(k0, t0)}" .
    then obtain v0 where v0: "vol_surface md (k0, t0) = Some v0" by blast
    then have "getVolatility md k t = Inr v0"
      by (simp add: getVolatility_def miss one surface_at_def)
    with d v0 show "dom (vol_surface md) = {(k0, t0)} \<and>
       (\<exists>v0. vol_surface md (k0, t0) = Some v0 \<and> getVolatility md k t = Inr v0)"
      by blast
  qed
  have uninit: "vol_surface md (k, t) = None \<and>
     \<not> (length (strikes md) = 1 \<and> length (maturities md) = 1) \<and>
     (length (strikes md) = 0 \<or> length (maturities md) = 0) \<longrightarrow>
       getVolatility md k t = Inl UninitializedSurface"
    by (auto simp: getVolatility_def)
  have insufficient: "vol_surface md (k, t) = None \<and>
     \<not> (length (strikes md) = 1 \<and> length (maturities md) = 1) \<and>
     0 < length (strikes md) \<and> 0 < length (maturities md) \<and>
     (length (strikes md) < 2 \<or> length (maturities md) < 2) \<longrightarrow>
       getVolatility md k t = Inl InsufficientData"
    by (auto simp: getVolatility_def)
  have strike_range: "vol_surface md (k, t) = None \<and> 2 \<le> length (strikes md) \<and>
     2 \<le> length (maturities md) \<and>
     (k < Min (set (strikes md)) \<or> Max (set (strikes md)) < k) \<longrightarrow>
       getVolatility md k t = Inl (OutOfBounds ''Strike out of bounds'')"
  proof (intro impI, elim conjE)
    assume miss: "vol_surface md (k, t) = None"
      and len: "2 \<le> length (strikes md)" "2 \<le> length (maturities md)"
      and out: "k < Min (set (strikes md)) \<or> Max (set (strikes md)) < k"
    from len have ne: "strikes md \<noteq> []" "maturities md \<noteq> []" by auto
    from out have "k < hd (strikes md) \<or> last (strikes md) < k"
      by (simp add: sorted_hd_Min [OF sk ne(1)] sorted_last_Max [OF sk ne(1)])
    then show "getVolatility md k t = Inl (OutOfBounds ''Strike out of bounds'')"
      using len ne by (auto simp: getVolatility_def miss)
  qed
  have maturity_range: "vol_surface md (k, t) = None \<and> 2 \<le> length (strikes md) \<and>
     2 \<le> length (maturities md) \<and>
     Min (set (strikes md)) \<le> k \<and> k \<le> Max (set (strikes md)) \<and>
     (t < Min (set (maturities md)) \<or> Max (set (maturities md)) < t) \<longrightarrow>
       getVolatility md k t = Inl (OutOfBounds ''Maturity out of bounds'')"
  proof (intro impI, elim conjE)
    assume miss: "vol_surface md (k, t) = None"
      and len: "2 \<le> length (strikes md)" "2 \<le> length (maturities md)"
      and inside: "Min (set (strikes md)) \<le> k" "k \<le> Max (set (strikes md))"
      and out: "t < Min (set (maturities md)) \<or> Max (set (maturities md)) < t"
    from len have ne: "strikes md \<noteq> []" "maturities md \<noteq> []" by auto
    from inside have "\<not> k < hd (strikes md)" "\<not> last (strikes md) < k"
      by (simp_all add: sorted_hd_Min [OF sk ne(1)] sorted_last_Max [OF sk ne(1)])
    moreover from out have "t < hd (maturities md) \<or> last (maturities md) < t"
      by (simp add: sorted_hd_Min [OF st ne(2)] sorted_last_Max [OF st ne(2)])
    ultimately show "getVolatility md k t = Inl (OutOfBounds ''Maturity out of bounds'')"
      using len ne by (auto simp: getVolatility_def miss)
  qed
  from exact single uninit insufficient strike_range maturity_range show ?thesis
    by blast
qed

theorem getVolatility_shortcuts_and_errors_witness:
  "surface_inv test_single_point \<and>
   getVolatility test_single_point 100 1 = Inr (1 / 5) \<and>
   getVolatility test_single_point 120 (3 / 2) = Inr (1 / 5) \<and>
   surface_inv empty_market_data \<and>
   getVolatility empty_market_data 100 1 = Inl UninitializedSurface \<and>
   surface_inv test_one_maturity \<and>
   getVolatility test_one_maturity 200 1 = Inl InsufficientData \<and>
   surface_inv test_grid \<and>
   getVolatility test_grid 90 (3 / 2) = Inl (OutOfBounds ''Strike out of bounds'') \<and>
   getVolatility test_grid 125 (1 / 2) = Inl (OutOfBounds ''Maturity out of bounds'')"
proof -
  have i1: "surface_inv test_single_point"
    unfolding test_single_point_def by (intro surface_inv_addVolatility surface_inv_empty)
  have i2: "surface_inv test_one_maturity"
    unfolding test_one_maturity_def by (intro surface_inv_addVolatility surface_inv_empty)
  from getVolatility_shortcuts_and_errors [OF i1, of 100 1 "1 / 5"]
  have exact: "getVolatility test_single_point 100 1 = Inr (1 / 5)"
    by (simp add: test_single_point_fields)
  have miss: "vol_surface test_single_point (120, 3 / 2) = None"
    by (simp add: test_single_point_fields)
  from getVolatility_shortcuts_and_errors [OF i1, of 120 "3 / 2" _ 100 1] miss
  obtain v0 where "vol_surface test_single_point (100, 1) = Some v0"
    and "getVolatility test_single_point 120 (3 / 2) = Inr v0"
    using test_single_point_fields(1,2) by blast
  then have flat: "getVolatility test_single_point 120 (3 / 2) = Inr (1 / 5)"
    by (simp add: test_single_point_fields)
  from getVolatility_shortcuts_and_errors [OF surface_inv_empty, of 100 1]
  have uninit: "getVolatility empty_market_data 100 1 = Inl UninitializedSurface"
    by (simp add: empty_market_data_def)
  from getVolatility_shortcuts_and_errors [OF i2, of 200 1]
  have insufficient: "getVolatility test_one_maturity 200 1 = Inl InsufficientData"
    by (simp add: test_one_maturity_fields)
  from getVolatility_shortcuts_and_errors [OF surface_inv_test_grid, of 90 "3 / 2"]
  have low_strike: "getVolatility test_grid 90 (3 / 2) = Inl (OutOfBounds ''Strike out of bounds'')"
    by (simp add: test_grid_fields)
  from getVolatility_shortcuts_and_errors [OF surface_inv_test_grid, of 125 "1 / 2"]
  have low_maturity:
    "getVolatility test_grid 125 (1 / 2) = Inl (OutOfBounds ''Maturity out of bounds'')"
    by (simp add: test_grid_fields)
  from i1 i2 surface_inv_empty surface_inv_test_grid exact flat uninit insufficient
    low_strike low_maturity
  show ?thesis by simp
qed

text \<open>
  C5. The behaviour of \<open>getVolatility\<close> at the boundary points of the axes, evaluated on
  the 2 x 2 grid of the unit test (all four corners stored) and on a sparse surface
  with the same axes (one diagonal stored). The queries are in range and not exact.
  \<^item> A strike equal to the smallest recorded strike collapses the bracket
    (\<open>k0 = k1 = 100\<close>); the weight \<open>x_ratio\<close> is then \<open>0 / 0\<close>, and the query
    \<open>(100, 1.5)\<close> does not return the interpolation \<open>0.225\<close> along the maturities but
    leaves the finite numbers. The same holds for the smallest maturity: query
    \<open>(125, 1)\<close>.
  \<^item> A strike equal to the largest recorded strike does not collapse the bracket:
    it is \<open>(100, 150)\<close>, and the query \<open>(150, 1.5)\<close> interpolates with weight \<open>1\<close>. On
    the sparse surface the query \<open>(150, 2)\<close> at the largest strike and the largest
    maturity therefore asks for the corner \<open>(100, 1)\<close> and fails with \<open>MissingDataPoint\<close>.
  \<^item> When both brackets collapse, query \<open>(100, 1)\<close> on the sparse surface, the lookup
    of the grid value is the lookup of the query itself, which is not stored: the
    uncaught \<open>KeyNotFound\<close>, not a value.
\<close>

theorem getVolatility_boundary_evaluation:
  "strikes test_grid = [100, 150] \<and> maturities test_grid = [1, 2] \<and>
   vol_surface test_grid (100, 3 / 2) = None \<and>
   bracket (strikes test_grid) 100 = (100, 100) \<and>
   bracket (maturities test_grid) (3 / 2) = (1, 2) \<and>
   getVolatility test_grid 100 (3 / 2) = Inl NonFinite \<and>
   getVolatility test_grid 125 1 = Inl NonFinite \<and>
   bracket (strikes test_grid) 150 = (100, 150) \<and>
   getVolatility test_grid 150 (3 / 2) = Inr (1 / 4) \<and>
   strikes sparse_grid = [100, 150] \<and> maturities sparse_grid = [1, 2] \<and>
   vol_surface sparse_grid (100, 1) = None \<and>
   bracket (strikes sparse_grid) 100 = (100, 100) \<and>
   bracket (maturities sparse_grid) 1 = (1, 1) \<and>
   getVolatility sparse_grid 100 1 = Inl KeyNotFound \<and>
   vol_surface sparse_grid (150, 1) = Some (11 / 50) \<and>
   vol_surface sparse_grid (150, 2) = None \<and>
   getVolatility sparse_grid 150 2 = Inl (MissingDataPoint 100 1)"
  by (simp add: getVolatility_def test_grid_fields sparse_grid_fields bracket_def fdiv_def
      get_vol_def surface_at_def)

text \<open>
  C1. For an instrument with spot \<open>S > 0\<close>, strike \<open>K > 0\<close> and maturity \<open>T > 0\<close>, and a
  market snapshot in which \<open>getRiskFreeRate T\<close> returns \<open>r\<close> and \<open>getVolatility K T\<close>
  returns \<open>\<sigma> > 0\<close>, \<open>calculatePrice\<close> returns the specification's call price
  \<open>S N(d1) - K e^(-rT) N(d2)\<close> when \<open>isCall\<close> is true and its put price
  \<open>K e^(-rT) N(-d2) - S N(-d1)\<close> when \<open>isCall\<close> is false.
\<close>

theorem calculatePrice_formula:
  assumes "0 < spotPrice p" "0 < strike p" "0 < maturity p"
    and "getRiskFreeRate eps md (maturity p) = Inr r"
    and "getVolatility md (strike p) (maturity p) = Inr sigma" and "0 < sigma"
  shows "calculatePrice eps p md =
     Inr (Fin (if isCall p then spec_call (spotPrice p) (strike p) (maturity p) r sigma
               else spec_put (spotPrice p) (strike p) (maturity p) r sigma))"
  using assms
  by (simp add: calculatePrice_def Let_def d1_Fin d2_Fin N_Fin spec_call_def spec_put_def)

theorem calculatePrice_formula_witness:
  "0 < spotPrice test_call \<and> 0 < strike test_call \<and> 0 < maturity test_call \<and>
   getRiskFreeRate epsilon_double test_market (maturity test_call) = Inr (1 / 20) \<and>
   getVolatility test_market (strike test_call) (maturity test_call) = Inr (1 / 5) \<and>
   calculatePrice epsilon_double test_call test_market = Inr (Fin (spec_call 100 100 1 (1 / 20) (1 / 5))) \<and>
   calculatePrice epsilon_double (test_call\<lparr>isCall := False\<rparr>) test_market
     = Inr (Fin (spec_put 100 100 1 (1 / 20) (1 / 5)))"
proof -
  have p: "0 < spotPrice test_call" "0 < strike test_call" "0 < maturity test_call"
    by (simp_all add: test_call_def)
  have q: "getRiskFreeRate epsilon_double test_market (maturity test_call) = Inr (1 / 20)"
    "getVolatility test_market (strike test_call) (maturity test_call) = Inr (1 / 5)"
    by (simp_all add: test_call_def test_market_queries)
  have p': "0 < spotPrice (test_call\<lparr>isCall := False\<rparr>)" "0 < strike (test_call\<lparr>isCall := False\<rparr>)"
    "0 < maturity (test_call\<lparr>isCall := False\<rparr>)"
    by (simp_all add: test_call_def)
  have q': "getRiskFreeRate epsilon_double test_market (maturity (test_call\<lparr>isCall := False\<rparr>))
      = Inr (1 / 20)"
    "getVolatility test_market (strike (test_call\<lparr>isCall := False\<rparr>))
       (maturity (test_call\<lparr>isCall := False\<rparr>)) = Inr (1 / 5)"
    by (simp_all add: test_call_def test_market_queries)
  have "calculatePrice epsilon_double test_call test_market
      = Inr (Fin (spec_call 100 100 1 (1 / 20) (1 / 5)))"
    using calculatePrice_formula [OF p q] by (simp add: test_call_def)
  moreover have "calculatePrice epsilon_double (test_call\<lparr>isCall := False\<rparr>) test_market
      = Inr (Fin (spec_put 100 100 1 (1 / 20) (1 / 5)))"
    using calculatePrice_formula [OF p' q'] by (simp add: test_call_def)
  ultimately show ?thesis using p q by simp
qed

text \<open>
  C4. Put-call parity. Under the same conditions, the prices \<open>c\<close> and \<open>q\<close> that
  \<open>calculatePrice\<close> returns for two instruments that differ in \<open>isCall\<close> only satisfy
  \<open>c - q = S - K e^(-rT)\<close>.
\<close>

theorem put_call_parity:
  assumes "0 < spotPrice p" "0 < strike p" "0 < maturity p"
    and "getRiskFreeRate eps md (maturity p) = Inr r"
    and "getVolatility md (strike p) (maturity p) = Inr sigma" and "0 < sigma"
  shows "\<exists>c q. calculatePrice eps (p\<lparr>isCall := True\<rparr>) md = Inr (Fin c) \<and>
               calculatePrice eps (p\<lparr>isCall := False\<rparr>) md = Inr (Fin q) \<and>
               c - q = spotPrice p - strike p * exp (- r * maturity p)"
proof -
  let ?S = "spotPrice p" and ?K = "strike p" and ?T = "maturity p"
  let ?d1 = "spec_d1 ?S ?K ?T r sigma" and ?d2 = "spec_d2 ?S ?K ?T r sigma"
  let ?c = "?S * spec_N ?d1 - ?K * exp (- r * ?T) * spec_N ?d2"
  let ?q = "?K * exp (- r * ?T) * spec_N (- ?d2) - ?S * spec_N (- ?d1)"
  have c: "calculatePrice eps (p\<lparr>isCall := True\<rparr>) md = Inr (Fin ?c)"
    using assms by (simp add: calculatePrice_def Let_def d1_Fin d2_Fin N_Fin)
  have q: "calculatePrice eps (p\<lparr>isCall := False\<rparr>) md = Inr (Fin ?q)"
    using assms by (simp add: calculatePrice_def Let_def d1_Fin d2_Fin N_Fin)
  have "?c - ?q = ?S * (spec_N ?d1 + spec_N (- ?d1))
      - ?K * exp (- r * ?T) * (spec_N ?d2 + spec_N (- ?d2))"
    by (simp add: algebra_simps)
  also have "\<dots> = ?S - ?K * exp (- r * ?T)"
    by (simp only: spec_N_reflect mult_1_right)
  finally show ?thesis using c q by blast
qed

theorem put_call_parity_witness:
  "0 < spotPrice test_call \<and> 0 < strike test_call \<and> 0 < maturity test_call \<and>
   getRiskFreeRate epsilon_double test_market (maturity test_call) = Inr (1 / 20) \<and>
   getVolatility test_market (strike test_call) (maturity test_call) = Inr (1 / 5) \<and>
   (\<exists>c q. calculatePrice epsilon_double (test_call\<lparr>isCall := True\<rparr>) test_market = Inr (Fin c) \<and>
          calculatePrice epsilon_double (test_call\<lparr>isCall := False\<rparr>) test_market = Inr (Fin q) \<and>
          c - q = 100 - 100 * exp (- (1 / 20)))"
proof -
  have p: "0 < spotPrice test_call" "0 < strike test_call" "0 < maturity test_call"
    by (simp_all add: test_call_def)
  have q: "getRiskFreeRate epsilon_double test_market (maturity test_call) = Inr (1 / 20)"
    "getVolatility test_market (strike test_call) (maturity test_call) = Inr (1 / 5)"
    by (simp_all add: test_call_def test_market_queries)
  have "\<exists>c q. calculatePrice epsilon_double (test_call\<lparr>isCall := True\<rparr>) test_market = Inr (Fin c) \<and>
          calculatePrice epsilon_double (test_call\<lparr>isCall := False\<rparr>) test_market = Inr (Fin q) \<and>
          c - q = 100 - 100 * exp (- (1 / 20))"
    using put_call_parity [OF p q] by (simp add: test_call_def)
  with p q show ?thesis by simp
qed

text \<open>
  C10. Whenever \<open>calculateGreeks\<close> succeeds, for a call or for a put, the keys of the
  mapping it returns are exactly "delta", "gamma", "vega", "theta" and "rho". It
  succeeds whenever neither market-data query throws (\<open>calculateGreeks_returns\<close>), so
  also with a volatility of zero or a volatility that is not a number, where some of the
  five values are infinite or NaN.
\<close>

theorem calculateGreeks_keys:
  assumes "calculateGreeks eps p md = Inr g"
  shows "dom g = {''delta'', ''gamma'', ''vega'', ''theta'', ''rho''}"
proof -
  from calculateGreeks_result [OF assms] obtain a b c d e where
    "g = [''delta'' \<mapsto> a, ''gamma'' \<mapsto> b, ''vega'' \<mapsto> c, ''theta'' \<mapsto> d, ''rho'' \<mapsto> e]"
    by blast
  then have "dom g = {''rho'', ''theta'', ''vega'', ''gamma'', ''delta''}"
    by simp
  then show ?thesis by blast
qed

theorem calculateGreeks_keys_witness:
  "(\<exists>g. calculateGreeks epsilon_double test_call test_market = Inr g \<and>
        dom g = {''delta'', ''gamma'', ''vega'', ''theta'', ''rho''}) \<and>
   (\<exists>g. calculateGreeks epsilon_double (test_call\<lparr>isCall := False\<rparr>) test_market = Inr g \<and>
        dom g = {''delta'', ''gamma'', ''vega'', ''theta'', ''rho''}) \<and>
   getVolatility zero_vol_market (strike test_call) (maturity test_call) = Inr 0 \<and>
   (\<exists>g. calculateGreeks epsilon_double test_call zero_vol_market = Inr g \<and>
        dom g = {''delta'', ''gamma'', ''vega'', ''theta'', ''rho''}) \<and>
   getVolatility grid_market (strike boundary_call) (maturity boundary_call) = Inl NonFinite \<and>
   (\<exists>g. calculateGreeks epsilon_double boundary_call grid_market = Inr g \<and>
        dom g = {''delta'', ''gamma'', ''vega'', ''theta'', ''rho''})"
proof -
  have p: "strike test_call = 100" "maturity test_call = 1"
    "strike (test_call\<lparr>isCall := False\<rparr>) = 100" "maturity (test_call\<lparr>isCall := False\<rparr>) = 1"
    "strike boundary_call = 100" "maturity boundary_call = 3 / 2"
    by (simp_all add: test_call_def boundary_call_def)
  have "\<exists>g. calculateGreeks epsilon_double test_call test_market = Inr g"
    by (simp add: calculateGreeks_returns p test_market_queries)
  then obtain g1 where g1: "calculateGreeks epsilon_double test_call test_market = Inr g1" ..
  have "\<exists>g. calculateGreeks epsilon_double (test_call\<lparr>isCall := False\<rparr>) test_market = Inr g"
    by (simp add: calculateGreeks_returns p test_market_queries)
  then obtain g2 where
    g2: "calculateGreeks epsilon_double (test_call\<lparr>isCall := False\<rparr>) test_market = Inr g2" ..
  have "\<exists>g. calculateGreeks epsilon_double test_call zero_vol_market = Inr g"
    by (simp add: calculateGreeks_returns p zero_vol_market_queries)
  then obtain g3 where g3: "calculateGreeks epsilon_double test_call zero_vol_market = Inr g3" ..
  have "\<exists>g. calculateGreeks epsilon_double boundary_call grid_market = Inr g"
    by (simp add: calculateGreeks_returns p grid_market_queries)
  then obtain g4 where g4: "calculateGreeks epsilon_double boundary_call grid_market = Inr g4" ..
  have z: "getVolatility zero_vol_market (strike test_call) (maturity test_call) = Inr 0"
    by (simp add: p zero_vol_market_queries)
  have n: "getVolatility grid_market (strike boundary_call) (maturity boundary_call)
      = Inl NonFinite"
    by (simp add: p grid_market_queries)
  from calculateGreeks_keys [OF g1] calculateGreeks_keys [OF g2] calculateGreeks_keys [OF g3]
    calculateGreeks_keys [OF g4] g1 g2 g3 g4 z n
  show ?thesis by blast
qed

text \<open>
  C9. Constructing a \<open>EuropeanStockOption\<close> fails with \<open>InvalidArgument\<close>, the message naming
  the field, when the strike, the maturity, the spot price or the notional is not
  positive (the fields are checked in this order), and succeeds otherwise; so every
  constructed option passes \<open>validate\<close> and has four positive parameters. Without an
  engine, \<open>price\<close> and \<open>greeks\<close> fail with \<open>EngineNotSet\<close>. With an engine attached,
  \<open>price\<close> is the engine's \<open>calculatePrice\<close> result times the notional (an exception of
  the engine passes through), and \<open>greeks\<close> is the engine's \<open>calculateGreeks\<close> result
  as it is. The Black-Scholes engine never raises \<open>EngineNotSet\<close> itself, so with it
  attached neither call fails with \<open>EngineNotSet\<close>.
\<close>

theorem EuropeanStockOption_contract:
  "(strike ps \<le> 0 \<longrightarrow>
      EuropeanStockOption ps = Inl (InvalidArgument ''Strike price must be positive'')) \<and>
   (0 < strike ps \<and> maturity ps \<le> 0 \<longrightarrow>
      EuropeanStockOption ps = Inl (InvalidArgument ''Time to maturity must be positive'')) \<and>
   (0 < strike ps \<and> 0 < maturity ps \<and> spotPrice ps \<le> 0 \<longrightarrow>
      EuropeanStockOption ps = Inl (InvalidArgument ''Stock spot price must be positive'')) \<and>
   (0 < strike ps \<and> 0 < maturity ps \<and> 0 < spotPrice ps \<and> notional ps \<le> 0 \<longrightarrow>
      EuropeanStockOption ps = Inl (InvalidArgument ''Contract notional must be positive'')) \<and>
   (0 < strike ps \<and> 0 < maturity ps \<and> 0 < spotPrice ps \<and> 0 < notional ps \<longrightarrow>
      EuropeanStockOption ps
        = Inr \<lparr>params = ps, pricingEngine = None, marketData = empty_market_data\<rparr>) \<and>
   (constructed opt \<longrightarrow>
      validate opt = Inr () \<and>
      0 < strike (params opt) \<and> 0 < maturity (params opt) \<and>
      0 < spotPrice (params opt) \<and> 0 < notional (params opt)) \<and>
   (pricingEngine opt = None \<longrightarrow>
      price opt = Inl (EngineNotSet ''Pricing engine not set'') \<and>
      greeks opt = Inl (EngineNotSet ''Pricing engine not set for European stock option'')) \<and>
   (pricingEngine opt = Some engine \<longrightarrow>
      price opt =
        (case engine_calculatePrice engine (params opt) (marketData opt) of
           Inl e \<Rightarrow> Inl e
         | Inr unit_price \<Rightarrow> Inr (unit_price * Fin (notional (params opt)))) \<and>
      greeks opt = engine_calculateGreeks engine (params opt) (marketData opt)) \<and>
   (pricingEngine opt = Some (BlackScholesEngine eps) \<longrightarrow>
      price opt \<noteq> Inl (EngineNotSet m) \<and> greeks opt \<noteq> Inl (EngineNotSet m))"
proof -
  have construction:
    "strike ps \<le> 0 \<longrightarrow>
      EuropeanStockOption ps = Inl (InvalidArgument ''Strike price must be positive'')"
    "0 < strike ps \<and> maturity ps \<le> 0 \<longrightarrow>
      EuropeanStockOption ps = Inl (InvalidArgument ''Time to maturity must be positive'')"
    "0 < strike ps \<and> 0 < maturity ps \<and> spotPrice ps \<le> 0 \<longrightarrow>
      EuropeanStockOption ps = Inl (InvalidArgument ''Stock spot price must be positive'')"
    "0 < strike ps \<and> 0 < maturity ps \<and> 0 < spotPrice ps \<and> notional ps \<le> 0 \<longrightarrow>
      EuropeanStockOption ps = Inl (InvalidArgument ''Contract notional must be positive'')"
    "0 < strike ps \<and> 0 < maturity ps \<and> 0 < spotPrice ps \<and> 0 < notional ps \<longrightarrow>
      EuropeanStockOption ps
        = Inr \<lparr>params = ps, pricingEngine = None, marketData = empty_market_data\<rparr>"
    by (simp_all add: EuropeanStockOption_def validate_def Let_def)
  have valid: "constructed opt \<longrightarrow>
      validate opt = Inr () \<and>
      0 < strike (params opt) \<and> 0 < maturity (params opt) \<and>
      0 < spotPrice (params opt) \<and> 0 < notional (params opt)"
    using constructed_valid [of opt] by (auto simp: validate_def)
  have unset: "pricingEngine opt = None \<longrightarrow>
      price opt = Inl (EngineNotSet ''Pricing engine not set'') \<and>
      greeks opt = Inl (EngineNotSet ''Pricing engine not set for European stock option'')"
    by (simp add: price_def greeks_def)
  have delegate: "pricingEngine opt = Some engine \<longrightarrow>
      price opt =
        (case engine_calculatePrice engine (params opt) (marketData opt) of
           Inl e \<Rightarrow> Inl e
         | Inr unit_price \<Rightarrow> Inr (unit_price * Fin (notional (params opt)))) \<and>
      greeks opt = engine_calculateGreeks engine (params opt) (marketData opt)"
    by (simp add: price_def greeks_def and_then_def)
  have black_scholes: "pricingEngine opt = Some (BlackScholesEngine eps) \<longrightarrow>
      price opt \<noteq> Inl (EngineNotSet m) \<and> greeks opt \<noteq> Inl (EngineNotSet m)"
    by (auto simp: price_def greeks_def BlackScholesEngine_def calculatePrice_errors
        calculateGreeks_errors dest!: and_then_Inl)
  from construction valid unset delegate black_scholes show ?thesis by blast
qed

theorem EuropeanStockOption_contract_witness:
  "strike (test_call\<lparr>strike := - 100\<rparr>) \<le> 0 \<and>
   EuropeanStockOption (test_call\<lparr>strike := - 100\<rparr>)
     = Inl (InvalidArgument ''Strike price must be positive'') \<and>
   EuropeanStockOption test_call = Inr unpriced_option \<and>
   constructed test_option \<and> validate test_option = Inr () \<and>
   pricingEngine unpriced_option = None \<and>
   price unpriced_option = Inl (EngineNotSet ''Pricing engine not set'') \<and>
   greeks unpriced_option = Inl (EngineNotSet ''Pricing engine not set for European stock option'') \<and>
   pricingEngine test_option = Some (BlackScholesEngine epsilon_double) \<and>
   (\<exists>u. calculatePrice epsilon_double test_call test_market = Inr u \<and>
        price test_option = Inr (u * Fin 1)) \<and>
   greeks test_option = calculateGreeks epsilon_double test_call test_market"
proof -
  note contract = EuropeanStockOption_contract
  have bad: "strike (test_call\<lparr>strike := - 100\<rparr>) \<le> 0"
    by (simp add: test_call_def)
  with contract [of "test_call\<lparr>strike := - 100\<rparr>"]
  have rejected: "EuropeanStockOption (test_call\<lparr>strike := - 100\<rparr>)
     = Inl (InvalidArgument ''Strike price must be positive'')"
    by blast
  have good: "0 < strike test_call \<and> 0 < maturity test_call \<and> 0 < spotPrice test_call \<and>
      0 < notional test_call"
    by (simp add: test_call_def)
  with contract [of test_call]
  have accepted: "EuropeanStockOption test_call = Inr unpriced_option"
    unfolding unpriced_option_def by blast
  then have c: "constructed test_option"
    unfolding test_option_def by (intro constructed.intros)
  with contract [of _ test_option] have valid: "validate test_option = Inr ()"
    by blast
  have none: "pricingEngine unpriced_option = None"
    by (simp add: unpriced_option_def)
  with contract [of _ unpriced_option]
  have unset: "price unpriced_option = Inl (EngineNotSet ''Pricing engine not set'')"
    "greeks unpriced_option = Inl (EngineNotSet ''Pricing engine not set for European stock option'')"
    by blast+
  have fields: "pricingEngine test_option = Some (BlackScholesEngine epsilon_double)"
    "params test_option = test_call" "marketData test_option = test_market"
    by (simp_all add: test_option_def unpriced_option_def setPricingEngine_def updateMarketData_def)
  have "\<exists>u. calculatePrice epsilon_double test_call test_market = Inr u"
    by (simp add: calculatePrice_returns test_call_def test_market_queries)
  then obtain u where u: "calculatePrice epsilon_double test_call test_market = Inr u" ..
  from contract [of _ test_option "BlackScholesEngine epsilon_double"] fields(1)
  have "price test_option =
        (case engine_calculatePrice (BlackScholesEngine epsilon_double) (params test_option)
                (marketData test_option) of
           Inl e \<Rightarrow> Inl e
         | Inr unit_price \<Rightarrow> Inr (unit_price * Fin (notional (params test_option))))"
    and g: "greeks test_option =
        engine_calculateGreeks (BlackScholesEngine epsilon_double) (params test_option)
          (marketData test_option)"
    by blast+
  then have "price test_option = Inr (u * Fin 1)"
    by (simp add: fields BlackScholesEngine_def u) (simp add: test_call_def)
  with u have priced: "\<exists>u. calculatePrice epsilon_double test_call test_market = Inr u \<and>
        price test_option = Inr (u * Fin 1)"
    by blast
  from g have delegated: "greeks test_option = calculateGreeks epsilon_double test_call test_market"
    by (simp add: fields BlackScholesEngine_def)
  from bad rejected accepted c valid none unset fields(1) priced delegated
  show ?thesis by blast
qed

end
